theory Spec2Isabelle
  imports Complex_Main "HOL-Library.AList"
begin

section \<open>Numbers, strings and library calls\<close>

text \<open>
  Python's \<open>float\<close> values (prices, cash, position quantities, clock readings) are
  modelled as exact reals and Python's unbounded \<open>int\<close> as \<open>int\<close>; rounding error, NaN and
  infinities of binary floating point are outside the model.
  The calls \<open>time.time()\<close>, \<open>random.random()\<close>, \<open>random.randint\<close> and \<open>random.gauss\<close> read the
  environment; their results are inputs of the functions that make the calls.
\<close>

text \<open>\<open>str(n)\<close> for a Python int, as the f-strings of \<open>validate_order\<close> print it.\<close>

definition digit_char :: "nat \<Rightarrow> char" where
  "digit_char d = ''0123456789'' ! d"

fun str_nat :: "nat \<Rightarrow> string" where
  "str_nat n = (if n < 10 then [digit_char n] else str_nat (n div 10) @ [digit_char (n mod 10)])"

definition str_int :: "int \<Rightarrow> string" where
  "str_int i = (if i < 0 then CHR ''-'' # str_nat (nat (- i)) else str_nat (nat i))"

text \<open>
  \<open>round(x, ndigits)\<close> on a float: the nearest multiple of \<open>10 ** -ndigits\<close>, a tie going
  to the even neighbour.
\<close>

definition round_half_even :: "real \<Rightarrow> int" where
  "round_half_even x =
     (let f = \<lfloor>x\<rfloor>; d = x - of_int f
      in if d < 1 / 2 then f else if 1 / 2 < d then f + 1 else if even f then f else f + 1)"

definition py_round :: "real \<Rightarrow> nat \<Rightarrow> real" where
  "py_round x ndigits = of_int (round_half_even (x * 10 ^ ndigits)) / 10 ^ ndigits"

section \<open>models.py\<close>

datatype OrderStatus = NEW | PENDING | FILLED | REJECTED | FAILED | CANCELED

text \<open>
  The exceptions the modelled code raises: the two classes of models.py, and the
  \<open>ValueError\<close> of the standard library's \<open>random.randint\<close>. Each carries its message.
\<close>

datatype error = OrderError string | ExecutionError string | ValueError string

fun str_error :: "error \<Rightarrow> string" where
  "str_error (OrderError msg) = msg"
| "str_error (ExecutionError msg) = msg"
| "str_error (ValueError msg) = msg"

record MarketDataPoint =
  timestamp :: real
  symbol_md :: string
  price_md :: real

record Order =
  symbol :: string
  quantity :: int
  price :: real
  side :: string
  order_type :: string
  status :: OrderStatus
  filled_quantity :: int
  reason :: string
  order_id :: string

text \<open>
  The constructor call \<open>Order(symbol=..., quantity=..., price=..., side=...)\<close> with the
  dataclass defaults of the other fields; the id is the text the default factory returns.
\<close>

definition Order_init :: "string \<Rightarrow> int \<Rightarrow> real \<Rightarrow> string \<Rightarrow> string \<Rightarrow> Order" where
  "Order_init symb qty px direction oid =
     \<lparr>symbol = symb, quantity = qty, price = px, side = direction, order_type = ''LIMIT'',
      status = NEW, filled_quantity = 0, reason = [], order_id = oid\<rparr>"

definition validate :: "Order \<Rightarrow> error + unit" where
  "validate order =
     (if quantity order \<le> 0 then Inl (OrderError ''Order quantity must be strictly positive'')
      else if price order \<le> 0 then Inl (OrderError ''Order price must be strictly positive'')
      else Inr ())"

definition mark_filled :: "Order \<Rightarrow> int \<Rightarrow> real \<Rightarrow> Order" where
  "mark_filled order filled_qty fill_price =
     (let fq = filled_quantity order + filled_qty
      in order\<lparr>filled_quantity := fq,
               status := (if fq = quantity order then FILLED else PENDING)\<rparr>)"

definition mark_failed :: "Order \<Rightarrow> string \<Rightarrow> Order" where
  "mark_failed order why = order\<lparr>status := FAILED, reason := why\<rparr>"

definition mark_rejected :: "Order \<Rightarrow> string \<Rightarrow> Order" where
  "mark_rejected order why = order\<lparr>status := REJECTED, reason := why\<rparr>"

section \<open>engine.py: the order manager\<close>

record OrderManager =
  capital :: real
  orders_timestamps :: "real list"
  MAX_ORDERS_PER_MIN :: int
  positions :: "(string \<times> real) list"
  MAX_POSITION :: int

text \<open>\<open>OrderManager.__init__\<close>, and the constructor's default argument.\<close>

definition OrderManager_init :: "real \<Rightarrow> int \<Rightarrow> OrderManager" where
  "OrderManager_init initial_capital max_orders_per_minute =
     \<lparr>capital = initial_capital, orders_timestamps = [],
      MAX_ORDERS_PER_MIN = max_orders_per_minute, positions = [], MAX_POSITION = 500\<rparr>"

definition default_max_orders_per_minute :: int where
  "default_max_orders_per_minute = 50"

text \<open>
  The loop \<open>while self.orders_timestamps and self.orders_timestamps[0] < now - 60: popleft()\<close>.
\<close>

fun prune_expired :: "real \<Rightarrow> real list \<Rightarrow> real list" where
  "prune_expired now [] = []"
| "prune_expired now (t # ts) = (if t < now - 60 then prune_expired now ts else t # ts)"

text \<open>\<open>d.get(key, default)\<close> on a dictionary kept as an association list.\<close>

definition dict_get :: "('k \<times> 'v) list \<Rightarrow> 'k \<Rightarrow> 'v \<Rightarrow> 'v" where
  "dict_get d k dflt = (case map_of d k of None \<Rightarrow> dflt | Some v \<Rightarrow> v)"

text \<open>
  \<open>validate_order\<close> returns its boolean together with the order manager and the order as
  the call leaves them; \<open>now\<close> is the reading of \<open>time.time()\<close> the call takes.
\<close>

definition validate_order :: "OrderManager \<Rightarrow> Order \<Rightarrow> real \<Rightarrow> bool \<times> OrderManager \<times> Order" where
  "validate_order om order now =
     (case validate order of
        Inl e \<Rightarrow> (False, om, mark_rejected order (str_error e))
      | Inr _ \<Rightarrow>
          if side order = ''BUY'' \<and> capital om < of_int (quantity order) * price order
          then (False, om, mark_rejected order ''Insufficient capital.'')
          else
            let om1 = om\<lparr>orders_timestamps := prune_expired now (orders_timestamps om)\<rparr>
            in if MAX_ORDERS_PER_MIN om1 \<le> int (length (orders_timestamps om1))
               then (False, om1, mark_rejected order ''Rate limit exceeded.'')
               else
                 let current_pos = dict_get (positions om1) (symbol order) 0
                 in if side order = ''BUY''
                        \<and> of_int (MAX_POSITION om1) < current_pos + of_int (quantity order)
                    then (False, om1,
                          mark_rejected order
                            (''Position limit ('' @ str_int (MAX_POSITION om1) @ '') exceeded.''))
                    else if side order = ''SELL''
                        \<and> current_pos - of_int (quantity order) < - of_int (MAX_POSITION om1)
                    then (False, om1,
                          mark_rejected order
                            (''Short position limit (-'' @ str_int (MAX_POSITION om1) @ '') exceeded.''))
                    else (True, om1\<lparr>orders_timestamps := orders_timestamps om1 @ [now]\<rparr>, order))"

section \<open>engine.py: the matching engine\<close>

record MatchingEngine =
  slippage_factor :: real

definition default_slippage_factor :: real where
  "default_slippage_factor = 1 / 10000"

text \<open>
  The random numbers one call of \<open>simulate_execution\<close> may draw, in the order of the calls:
  three results of \<open>random.random()\<close>, the result of the generator's \<open>_randbelow\<close> inside
  \<open>random.randint\<close>, and the standard normal deviate inside \<open>random.gauss\<close>.
\<close>

record draws =
  u_fail :: real
  u_fill :: real
  u_partial :: real
  r_below :: nat
  z_gauss :: real

text \<open>
  \<open>random.randint(a, b)\<close> is \<open>randrange(a, b + 1)\<close>: with \<open>width = b + 1 - a\<close> it returns
  \<open>a + _randbelow(width)\<close> when the width is positive and raises \<open>ValueError\<close> otherwise.
  \<open>random.gauss(mu, sigma)\<close> returns \<open>mu + z * sigma\<close>.
\<close>

definition randint :: "int \<Rightarrow> int \<Rightarrow> nat \<Rightarrow> error + int" where
  "randint a b r =
     (let width = b + 1 - a
      in if 0 < width then Inr (a + int (r mod nat width))
         else Inl (ValueError (''empty range in randrange('' @ str_int a @ '', ''
                                 @ str_int (b + 1) @ '')'')))"

definition gauss :: "real \<Rightarrow> real \<Rightarrow> real \<Rightarrow> real" where
  "gauss mu sigma z = mu + z * sigma"

text \<open>Step 3 of \<open>simulate_execution\<close>, reached with the filled quantity decided.\<close>

definition apply_slippage :: "MatchingEngine \<Rightarrow> Order \<Rightarrow> draws \<Rightarrow> int \<Rightarrow> Order \<times> real \<times> int" where
  "apply_slippage me order d filled_qty =
     (let slippage = gauss 0 (slippage_factor me) (z_gauss d);
          fill_price = price order * (1 + slippage);
          order' = (if 0 < filled_qty then mark_filled order filled_qty fill_price else order)
      in (order', py_round fill_price 2, filled_qty))"

definition simulate_execution :: "MatchingEngine \<Rightarrow> Order \<Rightarrow> draws \<Rightarrow> error + (Order \<times> real \<times> int)" where
  "simulate_execution me order d =
     (if u_fail d < 2 / 100
      then Inl (ExecutionError ''Simulated execution failure (2% chance)'')
      else if u_fill d < 95 / 100
      then Inr (apply_slippage me order d (quantity order))
      else if u_partial d < 4 / 100
      then (case randint 1 (quantity order - 1) (r_below d) of
              Inl e \<Rightarrow> Inl e
            | Inr filled_qty \<Rightarrow> Inr (apply_slippage me order d filled_qty))
      else Inr (mark_rejected order ''Canceled/No liquidity.'', 0, 0))"

section \<open>engine.py: the portfolio\<close>

text \<open>The dictionary \<open>{"quantity": Q, "avg_price": P}\<close> kept for a symbol.\<close>

record position =
  quantity_pos :: real
  avg_price :: real

record Portfolio =
  cash :: real
  positions_pf :: "(string \<times> position) list"
  trades :: "(real \<times> real) list"

definition Portfolio_init :: "real \<Rightarrow> Portfolio" where
  "Portfolio_init initial_cash = \<lparr>cash = initial_cash, positions_pf = [], trades = []\<rparr>"

text \<open>\<open>self.positions.get(symbol, {"quantity": 0.0, "avg_price": 0.0})\<close>.\<close>

definition position_of :: "Portfolio \<Rightarrow> string \<Rightarrow> position" where
  "position_of pf symb = dict_get (positions_pf pf) symb \<lparr>quantity_pos = 0, avg_price = 0\<rparr>"

text \<open>
  \<open>self.om\<close> refers to the order manager object when the runner has linked it, and is
  \<open>None\<close> otherwise. The object it refers to is passed to \<open>update_from_fill\<close> and returned
  as the call leaves it.
\<close>

definition update_from_fill ::
  "Portfolio \<Rightarrow> OrderManager option \<Rightarrow> Order \<Rightarrow> real \<Rightarrow> int \<Rightarrow> Portfolio \<times> OrderManager option" where
  "update_from_fill pf om order fill_price filled_qty =
     (let symb = symbol order;
          pos = position_of pf symb;
          cost = of_int filled_qty * fill_price;
          cash' = cash pf + (if side order = ''SELL'' then cost else - cost);
          current_qty = quantity_pos pos;
          new_qty = (if side order = ''BUY'' then current_qty + of_int filled_qty
                     else current_qty - of_int filled_qty);
          pos1 = (if 0 \<le> new_qty * current_qty \<and> new_qty \<noteq> 0
                  then pos\<lparr>avg_price :=
                         (avg_price pos * current_qty + fill_price * of_int filled_qty) / new_qty\<rparr>
                  else if new_qty = 0 then pos\<lparr>avg_price := 0\<rparr>
                  else pos);
          pos2 = pos1\<lparr>quantity_pos := new_qty\<rparr>
      in (pf\<lparr>cash := cash', positions_pf := AList.update symb pos2 (positions_pf pf)\<rparr>,
          (case om of
             None \<Rightarrow> None
           | Some m \<Rightarrow> Some (m\<lparr>positions := AList.update symb new_qty (positions m)\<rparr>))))"

definition compute_equity :: "Portfolio \<Rightarrow> (string \<times> real) list \<Rightarrow> real" where
  "compute_equity pf current_prices =
     foldl (\<lambda>total_value (symb, pos).
              total_value + quantity_pos pos * dict_get current_prices symb (avg_price pos))
       (cash pf) (positions_pf pf)"

section \<open>engine.py: the gateway\<close>

text \<open>
  The audit file is the list of its rows after the header: a row holds the reading of
  \<open>time.time()\<close> and the order whose fields the row prints.
\<close>

record Gateway =
  log_filename :: string
  audit :: "(real \<times> Order) list"

definition Gateway_init :: "string \<Rightarrow> Gateway" where
  "Gateway_init name = \<lparr>log_filename = name, audit = []\<rparr>"

definition log_order :: "Gateway \<Rightarrow> Order \<Rightarrow> real \<Rightarrow> Gateway" where
  "log_order gw order t = gw\<lparr>audit := audit gw @ [(t, order)]\<rparr>"

section \<open>backtest_runner.py\<close>

definition INITIAL_CASH :: real where
  "INITIAL_CASH = 100000"

definition DEFAULT_QTY :: int where
  "DEFAULT_QTY = 10"

text \<open>
  The components the runner creates. \<open>portfolio.om = order_manager\<close> makes the portfolio's
  \<open>om\<close> the one order manager of the run, so the record holds that object once.
\<close>

record components =
  gateway :: Gateway
  order_manager :: OrderManager
  matching_engine :: MatchingEngine
  portfolio :: Portfolio

definition initial_components :: components where
  "initial_components =
     \<lparr>gateway = Gateway_init ''trade_audit.csv'',
      order_manager = OrderManager_init INITIAL_CASH default_max_orders_per_minute,
      matching_engine = \<lparr>slippage_factor = default_slippage_factor\<rparr>,
      portfolio = Portfolio_init INITIAL_CASH\<rparr>"

text \<open>
  What the environment supplies while one signal is processed: the text of
  \<open>str(time.time())\<close> that becomes the order's id, the clock reading of \<open>validate_order\<close>,
  the random draws of \<open>simulate_execution\<close>, and the clock reading of \<open>log_order\<close>.
\<close>

record env =
  id_text :: string
  clock_validate :: real
  rnd :: draws
  clock_log :: real

text \<open>The two \<open>except\<close> clauses of the loop body, for an order that was constructed.\<close>

fun handle_fault :: "Order \<Rightarrow> error \<Rightarrow> Order" where
  "handle_fault order (ExecutionError msg) = mark_failed order msg"
| "handle_fault order e = mark_failed order (''Unknown Error: '' @ str_error e)"

text \<open>
  The body of \<open>for direction in all_signals\<close>. The order quantity is the module constant
  \<open>DEFAULT_QTY\<close> in the source and a parameter here.
\<close>

definition process_signal :: "int \<Rightarrow> components \<Rightarrow> MarketDataPoint \<Rightarrow> string \<Rightarrow> env \<Rightarrow> components" where
  "process_signal qty st tick direction e =
     (let order = Order_init (symbol_md tick) qty (price_md tick) direction (id_text e)
      in case validate_order (order_manager st) order (clock_validate e) of
           (ok, om1, order1) \<Rightarrow>
             if \<not> ok
             then st\<lparr>order_manager := om1,
                     gateway := log_order (gateway st) order1 (clock_log e)\<rparr>
             else
               (case simulate_execution (matching_engine st) order1 (rnd e) of
                  Inl err \<Rightarrow>
                    st\<lparr>order_manager := om1,
                       gateway := log_order (gateway st) (handle_fault order1 err) (clock_log e)\<rparr>
                | Inr (order2, fill_price, filled_qty) \<Rightarrow>
                    if 0 < filled_qty
                    then (case update_from_fill (portfolio st) (Some om1) order2 fill_price filled_qty of
                            (pf', om') \<Rightarrow>
                              st\<lparr>order_manager := (case om' of None \<Rightarrow> om1 | Some m \<Rightarrow> m),
                                 portfolio := pf',
                                 gateway := log_order (gateway st) order2 (clock_log e)\<rparr>)
                    else st\<lparr>order_manager := om1,
                            gateway := log_order (gateway st) order2 (clock_log e)\<rparr>))"

fun process_signals :: "int \<Rightarrow> components \<Rightarrow> MarketDataPoint \<Rightarrow> (string \<times> env) list \<Rightarrow> components" where
  "process_signals qty st tick [] = st"
| "process_signals qty st tick ((direction, e) # rest) =
     process_signals qty (process_signal qty st tick direction e) tick rest"

text \<open>The two statements after the signal loop: the equity sample of the tick.\<close>

definition record_equity :: "Portfolio \<Rightarrow> MarketDataPoint \<Rightarrow> Portfolio" where
  "record_equity pf tick =
     (let current_prices = [(symbol_md tick, price_md tick)];
          equity = compute_equity pf current_prices
      in pf\<lparr>trades := trades pf @ [(timestamp tick, equity)]\<rparr>)"

text \<open>
  The body of \<open>for tick in ticks\<close>. The signals of the strategies for the tick, an input of
  the core, come with the tick, each with its environment.
\<close>

definition process_tick :: "int \<Rightarrow> components \<Rightarrow> MarketDataPoint \<times> (string \<times> env) list \<Rightarrow> components" where
  "process_tick qty st obs =
     (case obs of
        (tick, all_signals) \<Rightarrow>
          (let st1 = process_signals qty st tick all_signals
           in st1\<lparr>portfolio := record_equity (portfolio st1) tick\<rparr>))"

fun run_ticks :: "int \<Rightarrow> components \<Rightarrow> (MarketDataPoint \<times> (string \<times> env) list) list \<Rightarrow> components" where
  "run_ticks qty st [] = st"
| "run_ticks qty st (obs # rest) = run_ticks qty (process_tick qty st obs) rest"

text \<open>
  The loop of \<open>run_backtest_simulation\<close> over the ticks, from the components the function
  creates. Reading the data file and writing the report are not modelled.
\<close>

definition run_backtest_simulation :: "(MarketDataPoint \<times> (string \<times> env) list) list \<Rightarrow> components" where
  "run_backtest_simulation ticks = run_ticks DEFAULT_QTY initial_components ticks"

section \<open>Sequences of operations\<close>

text \<open>A sequence of \<open>mark_filled\<close> calls on one order, each with its quantity and price.\<close>

fun mark_filled_all :: "Order \<Rightarrow> (int \<times> real) list \<Rightarrow> Order" where
  "mark_filled_all order [] = order"
| "mark_filled_all order ((filled_qty, fill_price) # rest) =
     mark_filled_all (mark_filled order filled_qty fill_price) rest"



text \<open>
  A sequence of \<open>validate_order\<close> calls on one order manager. Between two calls the
  portfolio may overwrite the position mirror, the one field of the order manager that
  another component writes, so every call comes with the mirror as it stands then, the
  order, and the clock reading the call takes.
\<close>

fun validate_all ::
  "OrderManager \<Rightarrow> ((string \<times> real) list \<times> Order \<times> real) list \<Rightarrow> (bool \<times> Order) list \<times> OrderManager" where
  "validate_all om [] = ([], om)"
| "validate_all om ((mirror, order, now) # rest) =
     (case validate_order (om\<lparr>positions := mirror\<rparr>) order now of
        (ok, om1, order1) \<Rightarrow>
          (case validate_all om1 rest of (results, om2) \<Rightarrow> ((ok, order1) # results, om2)))"

text \<open>
  An order that is structurally valid, capital-admissible and position-admissible: it
  passes every check of \<open>validate_order\<close> but, possibly, the rate limit.
\<close>

definition passes_other_checks :: "OrderManager \<Rightarrow> (string \<times> real) list \<Rightarrow> Order \<Rightarrow> bool" where
  "passes_other_checks om mirror order \<longleftrightarrow>
     0 < quantity order \<and> 0 < price order
     \<and> \<not> (side order = ''BUY'' \<and> capital om < of_int (quantity order) * price order)
     \<and> \<not> (side order = ''BUY''
          \<and> of_int (MAX_POSITION om) < dict_get mirror (symbol order) 0 + of_int (quantity order))
     \<and> \<not> (side order = ''SELL''
          \<and> dict_get mirror (symbol order) 0 - of_int (quantity order) < - of_int (MAX_POSITION om))"

text \<open>The status column of the audit file.\<close>

definition logged_statuses :: "components \<Rightarrow> OrderStatus list" where
  "logged_statuses st = map (\<lambda>row. status (snd row)) (audit (gateway st))"

section \<open>Statements of the specification\<close>

text \<open>
  "A quantity strictly between 1 and quantity - 1", as the specification words the size
  of a partial fill.
\<close>

definition spec_strictly_between :: "int \<Rightarrow> int \<Rightarrow> int \<Rightarrow> bool" where
  "spec_strictly_between lo hi k \<longleftrightarrow> lo < k \<and> k < hi"

text \<open>
  "The same blended-average formula", as the specification says is applied to a fill
  that flips the sign of the position: the blend of the old basis and the fill price
  over the new quantity.
\<close>

definition spec_blend :: "real \<Rightarrow> real \<Rightarrow> real \<Rightarrow> real \<Rightarrow> real \<Rightarrow> real" where
  "spec_blend old_basis old_qty fill_price filled_qty new_qty =
     (old_basis * old_qty + fill_price * filled_qty) / new_qty"

section \<open>Concrete inputs\<close>

text \<open>An order manager as the runner creates it, with a position mirrored for AAPL.\<close>

definition om_with_position :: "real \<Rightarrow> OrderManager" where
  "om_with_position q =
     (OrderManager_init INITIAL_CASH default_max_orders_per_minute)\<lparr>positions := [(''AAPL'', q)]\<rparr>"

text \<open>An order manager whose window holds fifty readings of the last minute.\<close>

definition om_window_full :: OrderManager where
  "om_window_full =
     (OrderManager_init INITIAL_CASH default_max_orders_per_minute)
       \<lparr>orders_timestamps := replicate 50 1\<rparr>"

definition aapl_order :: "string \<Rightarrow> int \<Rightarrow> real \<Rightarrow> Order" where
  "aapl_order direction qty px = Order_init ''AAPL'' qty px direction ''1700000000.0''"

text \<open>The matching engine of the runner, and draws that select each outcome.\<close>

definition me_default :: MatchingEngine where
  "me_default = \<lparr>slippage_factor = default_slippage_factor\<rparr>"

definition draws_failure :: draws where
  "draws_failure = \<lparr>u_fail = 1 / 100, u_fill = 1 / 2, u_partial = 1 / 2, r_below = 0, z_gauss = 0\<rparr>"

definition draws_full :: "real \<Rightarrow> draws" where
  "draws_full z = \<lparr>u_fail = 1 / 2, u_fill = 1 / 2, u_partial = 1 / 2, r_below = 0, z_gauss = z\<rparr>"

definition draws_partial :: "nat \<Rightarrow> real \<Rightarrow> draws" where
  "draws_partial r z =
     \<lparr>u_fail = 1 / 2, u_fill = 99 / 100, u_partial = 1 / 100, r_below = r, z_gauss = z\<rparr>"

definition draws_cancel :: draws where
  "draws_cancel = \<lparr>u_fail = 1 / 2, u_fill = 99 / 100, u_partial = 1 / 2, r_below = 0, z_gauss = 0\<rparr>"

text \<open>A tick for AAPL, and the environment of one signal.\<close>

definition aapl_tick :: "real \<Rightarrow> real \<Rightarrow> MarketDataPoint" where
  "aapl_tick ts px = \<lparr>timestamp = ts, symbol_md = ''AAPL'', price_md = px\<rparr>"

definition env_at :: "real \<Rightarrow> draws \<Rightarrow> env" where
  "env_at now d = \<lparr>id_text = ''1700000000.0'', clock_validate = now, rnd = d, clock_log = now\<rparr>"

text \<open>A portfolio that holds \<open>q\<close> shares of AAPL at a cost basis of \<open>b\<close>.\<close>

definition pf_holding :: "real \<Rightarrow> real \<Rightarrow> Portfolio" where
  "pf_holding q b =
     (Portfolio_init INITIAL_CASH)
       \<lparr>positions_pf := [(''AAPL'', \<lparr>quantity_pos = q, avg_price = b\<rparr>)]\<rparr>"

text \<open>
  \<open>n\<close> submissions of the same BUY order, one per second of the clock from \<open>now\<close> on, the
  position mirror empty.
\<close>

fun burst :: "nat \<Rightarrow> real \<Rightarrow> ((string \<times> real) list \<times> Order \<times> real) list" where
  "burst 0 now = []"
| "burst (Suc n) now = ([], aapl_order ''BUY'' 10 100, now) # burst n (now + 1)"

text \<open>
  \<open>n\<close> round trips: a tick with a BUY signal and, \<open>dt\<close> seconds of observation time
  later, a tick with a SELL signal, the next round trip \<open>dt\<close> seconds after that. Every
  order is filled in full with no slippage, and the clock advances by a hundredth of a
  second from one order to the next.
\<close>

fun round_trips :: "nat \<Rightarrow> real \<Rightarrow> real \<Rightarrow> real \<Rightarrow> (MarketDataPoint \<times> (string \<times> env) list) list" where
  "round_trips 0 dt obs now = []"
| "round_trips (Suc n) dt obs now =
     (aapl_tick obs 100, [(''BUY'', env_at now (draws_full 0))])
     # (aapl_tick (obs + dt) 100, [(''SELL'', env_at (now + 1 / 100) (draws_full 0))])
     # round_trips n dt (obs + 2 * dt) (now + 2 / 100)"

section \<open>An invariant of runs\<close>

text \<open>
  The state of a run of the default components in which \<open>k\<close> readings, none negative,
  stand in the window and \<open>q\<close> shares of AAPL are held.
\<close>

definition ledger_ok :: "components \<Rightarrow> nat \<Rightarrow> real \<Rightarrow> bool" where
  "ledger_ok st k q \<longleftrightarrow>
     length (orders_timestamps (order_manager st)) = k
     \<and> list_all (\<lambda>t. 0 \<le> t) (orders_timestamps (order_manager st))
     \<and> capital (order_manager st) = 100000
     \<and> MAX_ORDERS_PER_MIN (order_manager st) = 50
     \<and> MAX_POSITION (order_manager st) = 500
     \<and> dict_get (positions (order_manager st)) ''AAPL'' 0 = q
     \<and> quantity_pos (position_of (portfolio st) ''AAPL'') = q
     \<and> matching_engine st = me_default"

section \<open>The validator\<close>

lemma str_int_500: "str_int 500 = ''500''"
  by (simp add: str_int_def digit_char_def)

lemma prune_expired_replicate_1: "prune_expired 2 (replicate 50 1) = replicate 50 1"
  by (simp add: numeral_eq_Suc)

text \<open>
  Claim C7. \<open>validate_order\<close> applies its checks in the order structural (quantity, then
  price), capital, rate limit, position limit. The first check that fails decides the
  result: the call returns \<open>False\<close> and the order is \<open>REJECTED\<close> with that check's reason,
  whatever the later checks would say; a rejection by the structural or the capital check
  leaves the order manager as it was (the window is not even pruned), a rejection by the
  rate or the position check leaves it with the window pruned and nothing recorded. When
  every check passes the call returns \<open>True\<close>, the reading \<open>now\<close> is appended to the pruned
  window and the order is returned unchanged, so a \<open>NEW\<close> order is still \<open>NEW\<close>.
\<close>

theorem validate_order_fixed_order:
  "(quantity order \<le> 0 \<longrightarrow>
      validate_order om order now =
        (False, om,
         order\<lparr>status := REJECTED, reason := ''Order quantity must be strictly positive''\<rparr>))
   \<and> (0 < quantity order \<and> price order \<le> 0 \<longrightarrow>
      validate_order om order now =
        (False, om,
         order\<lparr>status := REJECTED, reason := ''Order price must be strictly positive''\<rparr>))
   \<and> (0 < quantity order \<and> 0 < price order
        \<and> side order = ''BUY'' \<and> capital om < of_int (quantity order) * price order \<longrightarrow>
      validate_order om order now =
        (False, om, order\<lparr>status := REJECTED, reason := ''Insufficient capital.''\<rparr>))
   \<and> (0 < quantity order \<and> 0 < price order
        \<and> \<not> (side order = ''BUY'' \<and> capital om < of_int (quantity order) * price order)
        \<and> MAX_ORDERS_PER_MIN om \<le> int (length (prune_expired now (orders_timestamps om))) \<longrightarrow>
      validate_order om order now =
        (False, om\<lparr>orders_timestamps := prune_expired now (orders_timestamps om)\<rparr>,
         order\<lparr>status := REJECTED, reason := ''Rate limit exceeded.''\<rparr>))
   \<and> (0 < quantity order \<and> 0 < price order
        \<and> \<not> (side order = ''BUY'' \<and> capital om < of_int (quantity order) * price order)
        \<and> int (length (prune_expired now (orders_timestamps om))) < MAX_ORDERS_PER_MIN om
        \<and> side order = ''BUY''
        \<and> of_int (MAX_POSITION om)
            < dict_get (positions om) (symbol order) 0 + of_int (quantity order) \<longrightarrow>
      validate_order om order now =
        (False, om\<lparr>orders_timestamps := prune_expired now (orders_timestamps om)\<rparr>,
         order\<lparr>status := REJECTED,
               reason := ''Position limit ('' @ str_int (MAX_POSITION om) @ '') exceeded.''\<rparr>))
   \<and> (0 < quantity order \<and> 0 < price order
        \<and> int (length (prune_expired now (orders_timestamps om))) < MAX_ORDERS_PER_MIN om
        \<and> side order = ''SELL''
        \<and> dict_get (positions om) (symbol order) 0 - of_int (quantity order)
            < - of_int (MAX_POSITION om) \<longrightarrow>
      validate_order om order now =
        (False, om\<lparr>orders_timestamps := prune_expired now (orders_timestamps om)\<rparr>,
         order\<lparr>status := REJECTED,
               reason := ''Short position limit (-'' @ str_int (MAX_POSITION om) @ '') exceeded.''\<rparr>))
   \<and> (0 < quantity order \<and> 0 < price order
        \<and> \<not> (side order = ''BUY'' \<and> capital om < of_int (quantity order) * price order)
        \<and> int (length (prune_expired now (orders_timestamps om))) < MAX_ORDERS_PER_MIN om
        \<and> \<not> (side order = ''BUY''
             \<and> of_int (MAX_POSITION om)
                 < dict_get (positions om) (symbol order) 0 + of_int (quantity order))
        \<and> \<not> (side order = ''SELL''
             \<and> dict_get (positions om) (symbol order) 0 - of_int (quantity order)
                 < - of_int (MAX_POSITION om)) \<longrightarrow>
      validate_order om order now =
        (True, om\<lparr>orders_timestamps := prune_expired now (orders_timestamps om) @ [now]\<rparr>,
         order))"
  by (simp add: validate_order_def validate_def mark_rejected_def Let_def)

text \<open>
  One order for each case. The first fails every check at once
  (quantity 0, price 0, a full window, a position at the bound) and is rejected for its
  quantity; the third costs more than the capital while the window is full and is
  rejected for the capital, the window left unpruned.
\<close>

theorem validate_order_fixed_order_witness:
  "validate_order (om_window_full\<lparr>positions := [(''AAPL'', 500)]\<rparr>) (aapl_order ''BUY'' 0 0) 2 =
     (False, om_window_full\<lparr>positions := [(''AAPL'', 500)]\<rparr>,
      (aapl_order ''BUY'' 0 0)
        \<lparr>status := REJECTED, reason := ''Order quantity must be strictly positive''\<rparr>)
   \<and> validate_order om_window_full (aapl_order ''BUY'' 10 0) 2 =
     (False, om_window_full,
      (aapl_order ''BUY'' 10 0)
        \<lparr>status := REJECTED, reason := ''Order price must be strictly positive''\<rparr>)
   \<and> validate_order (om_window_full\<lparr>orders_timestamps := replicate 50 (- 100)\<rparr>)
        (aapl_order ''BUY'' 10 20000) 2 =
     (False, om_window_full\<lparr>orders_timestamps := replicate 50 (- 100)\<rparr>,
      (aapl_order ''BUY'' 10 20000)\<lparr>status := REJECTED, reason := ''Insufficient capital.''\<rparr>)
   \<and> validate_order (om_window_full\<lparr>positions := [(''AAPL'', 500)]\<rparr>) (aapl_order ''BUY'' 10 100) 2 =
     (False, om_window_full\<lparr>positions := [(''AAPL'', 500)]\<rparr>,
      (aapl_order ''BUY'' 10 100)\<lparr>status := REJECTED, reason := ''Rate limit exceeded.''\<rparr>)
   \<and> validate_order (om_with_position 495) (aapl_order ''BUY'' 10 100) 2 =
     (False, om_with_position 495,
      (aapl_order ''BUY'' 10 100)
        \<lparr>status := REJECTED, reason := ''Position limit (500) exceeded.''\<rparr>)
   \<and> validate_order (om_with_position (- 495)) (aapl_order ''SELL'' 10 100) 2 =
     (False, om_with_position (- 495),
      (aapl_order ''SELL'' 10 100)
        \<lparr>status := REJECTED, reason := ''Short position limit (-500) exceeded.''\<rparr>)
   \<and> validate_order (om_with_position 495) (aapl_order ''BUY'' 5 100) 2 =
     (True, (om_with_position 495)\<lparr>orders_timestamps := [2]\<rparr>, aapl_order ''BUY'' 5 100)
   \<and> status (aapl_order ''BUY'' 5 100) = NEW"
  using validate_order_fixed_order [of "aapl_order ''BUY'' 0 0"
          "om_window_full\<lparr>positions := [(''AAPL'', 500)]\<rparr>" 2]
        validate_order_fixed_order [of "aapl_order ''BUY'' 10 0" om_window_full 2]
        validate_order_fixed_order [of "aapl_order ''BUY'' 10 20000"
          "om_window_full\<lparr>orders_timestamps := replicate 50 (- 100)\<rparr>" 2]
        validate_order_fixed_order [of "aapl_order ''BUY'' 10 100"
          "om_window_full\<lparr>positions := [(''AAPL'', 500)]\<rparr>" 2]
        validate_order_fixed_order [of "aapl_order ''BUY'' 10 100" "om_with_position 495" 2]
        validate_order_fixed_order [of "aapl_order ''SELL'' 10 100" "om_with_position (- 495)" 2]
        validate_order_fixed_order [of "aapl_order ''BUY'' 5 100" "om_with_position 495" 2]
  by (simp add: aapl_order_def Order_init_def om_window_full_def om_with_position_def
      OrderManager_init_def INITIAL_CASH_def default_max_orders_per_minute_def dict_get_def
      str_int_500 prune_expired_replicate_1)

text \<open>
  Claim C8. With the default bound \<open>MAX_POSITION = 500\<close>, an order that passes the
  structural, capital and rate checks is admitted when its projected position stays
  within the bound, the bound itself included, and is rejected by the position check
  otherwise: a BUY when \<open>current + quantity > 500\<close>, a SELL when
  \<open>current - quantity < -500\<close>. With a long position of 495 a BUY of 10 is rejected and
  a BUY of 5 is admitted; with a short position of 495 a SELL of 10 is rejected and a
  SELL of 5 is admitted.
\<close>

theorem position_limit_rule:
  assumes "MAX_POSITION om = 500"
    and "0 < quantity order" and "0 < price order"
    and "\<not> (side order = ''BUY'' \<and> capital om < of_int (quantity order) * price order)"
    and "int (length (prune_expired now (orders_timestamps om))) < MAX_ORDERS_PER_MIN om"
  shows "(side order = ''BUY'' \<longrightarrow>
           (if dict_get (positions om) (symbol order) 0 + of_int (quantity order) \<le> 500
            then fst (validate_order om order now)
               \<and> snd (snd (validate_order om order now)) = order
            else \<not> fst (validate_order om order now)
               \<and> snd (snd (validate_order om order now)) =
                   order\<lparr>status := REJECTED, reason := ''Position limit (500) exceeded.''\<rparr>))
       \<and> (side order = ''SELL'' \<longrightarrow>
           (if - 500 \<le> dict_get (positions om) (symbol order) 0 - of_int (quantity order)
            then fst (validate_order om order now)
               \<and> snd (snd (validate_order om order now)) = order
            else \<not> fst (validate_order om order now)
               \<and> snd (snd (validate_order om order now)) =
                   order\<lparr>status := REJECTED,
                         reason := ''Short position limit (-500) exceeded.''\<rparr>))"
  using assms
  by (simp add: validate_order_def validate_def mark_rejected_def Let_def str_int_500)

lemma om_with_position_facts:
  "MAX_POSITION (om_with_position q) = 500"
  "capital (om_with_position q) = 100000"
  "orders_timestamps (om_with_position q) = []"
  "MAX_ORDERS_PER_MIN (om_with_position q) = 50"
  "dict_get (positions (om_with_position q)) ''AAPL'' 0 = q"
  by (simp_all add: om_with_position_def OrderManager_init_def INITIAL_CASH_def
      default_max_orders_per_minute_def dict_get_def)

lemma aapl_order_facts:
  "symbol (aapl_order direction qty px) = ''AAPL''"
  "quantity (aapl_order direction qty px) = qty"
  "price (aapl_order direction qty px) = px"
  "side (aapl_order direction qty px) = direction"
  "status (aapl_order direction qty px) = NEW"
  "filled_quantity (aapl_order direction qty px) = 0"
  by (simp_all add: aapl_order_def Order_init_def)

theorem position_limit_rule_witness:
  "\<not> fst (validate_order (om_with_position 495) (aapl_order ''BUY'' 10 100) 0)
   \<and> snd (snd (validate_order (om_with_position 495) (aapl_order ''BUY'' 10 100) 0)) =
       (aapl_order ''BUY'' 10 100)
         \<lparr>status := REJECTED, reason := ''Position limit (500) exceeded.''\<rparr>
   \<and> fst (validate_order (om_with_position 495) (aapl_order ''BUY'' 5 100) 0)
   \<and> snd (snd (validate_order (om_with_position 495) (aapl_order ''BUY'' 5 100) 0)) =
       aapl_order ''BUY'' 5 100
   \<and> \<not> fst (validate_order (om_with_position (- 495)) (aapl_order ''SELL'' 10 100) 0)
   \<and> snd (snd (validate_order (om_with_position (- 495)) (aapl_order ''SELL'' 10 100) 0)) =
       (aapl_order ''SELL'' 10 100)
         \<lparr>status := REJECTED, reason := ''Short position limit (-500) exceeded.''\<rparr>
   \<and> fst (validate_order (om_with_position (- 495)) (aapl_order ''SELL'' 5 100) 0)"
  using position_limit_rule [of "om_with_position 495" "aapl_order ''BUY'' 10 100" 0]
        position_limit_rule [of "om_with_position 495" "aapl_order ''BUY'' 5 100" 0]
        position_limit_rule [of "om_with_position (- 495)" "aapl_order ''SELL'' 10 100" 0]
        position_limit_rule [of "om_with_position (- 495)" "aapl_order ''SELL'' 5 100" 0]
  by (simp add: om_with_position_facts aapl_order_facts)

section \<open>The order's fills\<close>

lemma mark_filled_all_append:
  "mark_filled_all order (fills @ [(q, p)]) = mark_filled (mark_filled_all order fills) q p"
  by (induction fills arbitrary: order) auto

lemma mark_filled_all_quantity: "quantity (mark_filled_all order fills) = quantity order"
  by (induction fills arbitrary: order) (auto simp: mark_filled_def Let_def)

lemma mark_filled_all_filled:
  "filled_quantity (mark_filled_all order fills) = filled_quantity order + sum_list (map fst fills)"
  by (induction fills arbitrary: order) (auto simp: mark_filled_def Let_def)

lemma mark_filled_all_status:
  "fills \<noteq> [] \<Longrightarrow>
   status (mark_filled_all order fills) =
     (if filled_quantity (mark_filled_all order fills) = quantity order then FILLED else PENDING)"
proof (induction fills rule: rev_induct)
  case Nil
  then show ?case by simp
next
  case (snoc f fills)
  obtain q p where f: "f = (q, p)" by (cases f) auto
  show ?case
    by (simp add: f mark_filled_all_append mark_filled_def Let_def mark_filled_all_quantity)
qed

lemma randint_value:
  "a \<le> b \<Longrightarrow> randint a b r = Inr (a + int (r mod nat (b + 1 - a)))"
  by (simp add: randint_def Let_def)

lemma randint_range:
  assumes "a \<le> b"
  shows "a \<le> a + int (r mod nat (b + 1 - a)) \<and> a + int (r mod nat (b + 1 - a)) \<le> b"
proof -
  have "0 < nat (b + 1 - a)" using assms by simp
  then have "r mod nat (b + 1 - a) < nat (b + 1 - a)" by (rule mod_less_divisor)
  then have "int (r mod nat (b + 1 - a)) < b + 1 - a" using assms by linarith
  then show ?thesis by simp
qed

lemma randint_empty:
  "b < a \<Longrightarrow>
   randint a b r =
     Inl (ValueError (''empty range in randrange('' @ str_int a @ '', '' @ str_int (b + 1) @ '')''))"
  by (simp add: randint_def Let_def)

lemma simulate_once:
  assumes "filled_quantity order = 0" and "0 < quantity order"
    and "simulate_execution me order d = Inr (order', fill_price, filled_qty)"
  shows "filled_quantity order' = filled_qty \<and> 0 \<le> filled_qty \<and> filled_qty \<le> quantity order
       \<and> quantity order' = quantity order
       \<and> (status order' = FILLED \<longleftrightarrow> filled_quantity order' = quantity order')"
proof (cases "u_fill d < 95 / 100")
  case True
  with assms show ?thesis
    by (auto simp: simulate_execution_def apply_slippage_def Let_def mark_filled_def
        split: if_splits)
next
  case False
  show ?thesis
  proof (cases "u_partial d < 4 / 100")
    case p: True
    show ?thesis
    proof (cases "1 \<le> quantity order - 1")
      case True
      have k: "randint 1 (quantity order - 1) (r_below d) =
                 Inr (1 + int (r_below d mod nat (quantity order - 1 + 1 - 1)))"
        using True by (rule randint_value)
      have "1 \<le> 1 + int (r_below d mod nat (quantity order - 1 + 1 - 1))
          \<and> 1 + int (r_below d mod nat (quantity order - 1 + 1 - 1)) \<le> quantity order - 1"
        using True by (rule randint_range)
      with k assms False p show ?thesis
        by (auto simp: simulate_execution_def apply_slippage_def Let_def mark_filled_def
            split: if_splits)
    next
      case e: False
      then have "randint 1 (quantity order - 1) (r_below d) =
          Inl (ValueError (''empty range in randrange('' @ str_int 1 @ '', ''
                             @ str_int (quantity order - 1 + 1) @ '')''))"
        using randint_empty by simp
      with assms False p show ?thesis
        by (auto simp: simulate_execution_def split: if_splits)
    qed
  next
    case c: False
    with assms False show ?thesis
      by (auto simp: simulate_execution_def mark_rejected_def split: if_splits)
  qed
qed

text \<open>
  Claim C5, as stated, fails: \<open>mark_filled\<close> adds the fill to \<open>filled_quantity\<close> with no
  upper bound, so two fills of 6 on an order for 10 leave \<open>filled_quantity = 12\<close>.
\<close>

theorem filled_quantity_bound_counterexample:
  "filled_quantity (mark_filled_all (aapl_order ''BUY'' 10 100) [(6, 100), (6, 100)]) = 12
   \<and> quantity (mark_filled_all (aapl_order ''BUY'' 10 100) [(6, 100), (6, 100)]) = 10
   \<and> \<not> filled_quantity (mark_filled_all (aapl_order ''BUY'' 10 100) [(6, 100), (6, 100)])
         \<le> quantity (mark_filled_all (aapl_order ''BUY'' 10 100) [(6, 100), (6, 100)])"
  by (simp add: mark_filled_def aapl_order_def Order_init_def)

text \<open>
  Claim C5, amended. Fills accumulate: after a sequence of \<open>mark_filled\<close> calls
  \<open>filled_quantity\<close> is its old value plus the sum of the fills, so it stays within
  \<open>quantity\<close> exactly when that sum does. After at least one fill the status is \<open>FILLED\<close>
  when \<open>filled_quantity = quantity\<close> and \<open>PENDING\<close> otherwise. One call of
  \<open>simulate_execution\<close> on an order with nothing filled and a positive quantity, which is
  what the runner does with each order, returns it with
  \<open>0 \<le> filled_quantity \<le> quantity\<close> and with status \<open>FILLED\<close> if and only if
  \<open>filled_quantity = quantity\<close>.
\<close>

theorem fills_accumulate:
  "filled_quantity (mark_filled_all order fills) = filled_quantity order + sum_list (map fst fills)
   \<and> quantity (mark_filled_all order fills) = quantity order
   \<and> (filled_quantity (mark_filled_all order fills) \<le> quantity (mark_filled_all order fills)
        \<longleftrightarrow> filled_quantity order + sum_list (map fst fills) \<le> quantity order)
   \<and> (fills \<noteq> [] \<longrightarrow>
        status (mark_filled_all order fills) =
          (if filled_quantity (mark_filled_all order fills) = quantity order
           then FILLED else PENDING))
   \<and> (filled_quantity order = 0 \<and> 0 < quantity order
        \<and> simulate_execution me order d = Inr (order', fill_price, filled_qty) \<longrightarrow>
        filled_quantity order' = filled_qty \<and> 0 \<le> filled_qty
        \<and> filled_quantity order' \<le> quantity order'
        \<and> (status order' = FILLED \<longleftrightarrow> filled_quantity order' = quantity order'))"
proof -
  have a: "filled_quantity (mark_filled_all order fills) =
             filled_quantity order + sum_list (map fst fills)"
    by (rule mark_filled_all_filled)
  have b: "quantity (mark_filled_all order fills) = quantity order"
    by (rule mark_filled_all_quantity)
  have c: "fills \<noteq> [] \<longrightarrow>
        status (mark_filled_all order fills) =
          (if filled_quantity (mark_filled_all order fills) = quantity order
           then FILLED else PENDING)"
    using mark_filled_all_status by blast
  have d: "filled_quantity order = 0 \<and> 0 < quantity order
        \<and> simulate_execution me order d = Inr (order', fill_price, filled_qty) \<longrightarrow>
        filled_quantity order' = filled_qty \<and> 0 \<le> filled_qty
        \<and> filled_quantity order' \<le> quantity order'
        \<and> (status order' = FILLED \<longleftrightarrow> filled_quantity order' = quantity order')"
    using simulate_once [of order me d order' fill_price filled_qty] by auto
  have e: "filled_quantity (mark_filled_all order fills) \<le> quantity (mark_filled_all order fills)
        \<longleftrightarrow> filled_quantity order + sum_list (map fst fills) \<le> quantity order"
    by (simp only: a b)
  from a b e c d show ?thesis by (intro conjI)
qed

lemma simulate_partial_example:
  "simulate_execution me_default (aapl_order ''BUY'' 10 100) (draws_partial 3 0) =
     Inr ((aapl_order ''BUY'' 10 100)\<lparr>filled_quantity := 4, status := PENDING\<rparr>, 100, 4)"
  by (simp add: simulate_execution_def apply_slippage_def randint_def gauss_def py_round_def
      round_half_even_def mark_filled_def Let_def draws_partial_def me_default_def
      aapl_order_def Order_init_def)

theorem fills_accumulate_witness:
  "filled_quantity (mark_filled_all (aapl_order ''BUY'' 10 100) [(4, 100), (6, 100)]) = 10
   \<and> status (mark_filled_all (aapl_order ''BUY'' 10 100) [(4, 100), (6, 100)]) = FILLED
   \<and> status (mark_filled_all (aapl_order ''BUY'' 10 100) [(4, 100)]) = PENDING
   \<and> simulate_execution me_default (aapl_order ''BUY'' 10 100) (draws_partial 3 0) =
       Inr ((aapl_order ''BUY'' 10 100)\<lparr>filled_quantity := 4, status := PENDING\<rparr>, 100, 4)
   \<and> filled_quantity ((aapl_order ''BUY'' 10 100)\<lparr>filled_quantity := 4, status := PENDING\<rparr>)
       \<le> quantity ((aapl_order ''BUY'' 10 100)\<lparr>filled_quantity := 4, status := PENDING\<rparr>)"
  using fills_accumulate [of "aapl_order ''BUY'' 10 100" "[(4, 100), (6, 100)]"
          me_default "draws_partial 3 0"
          "(aapl_order ''BUY'' 10 100)\<lparr>filled_quantity := 4, status := PENDING\<rparr>" 100 4]
        fills_accumulate [of "aapl_order ''BUY'' 10 100" "[(4, 100)]"
          me_default "draws_partial 3 0"
          "(aapl_order ''BUY'' 10 100)\<lparr>filled_quantity := 4, status := PENDING\<rparr>" 100 4]
        simulate_partial_example
  by (simp add: aapl_order_facts)

section \<open>The matching engine\<close>

text \<open>
  Claim C4, as stated, fails: the partial fill is \<open>random.randint(1, quantity - 1)\<close>, whose
  bounds are inclusive. For an order of 10 the draws below give partial fills of 1 and
  of 9, neither strictly between 1 and 9.
\<close>

theorem partial_fill_strictly_between_counterexample:
  "simulate_execution me_default (aapl_order ''BUY'' 10 100) (draws_partial 0 0) =
     Inr ((aapl_order ''BUY'' 10 100)\<lparr>filled_quantity := 1, status := PENDING\<rparr>, 100, 1)
   \<and> \<not> spec_strictly_between 1 (quantity (aapl_order ''BUY'' 10 100) - 1) 1
   \<and> simulate_execution me_default (aapl_order ''BUY'' 10 100) (draws_partial 8 0) =
     Inr ((aapl_order ''BUY'' 10 100)\<lparr>filled_quantity := 9, status := PENDING\<rparr>, 100, 9)
   \<and> \<not> spec_strictly_between 1 (quantity (aapl_order ''BUY'' 10 100) - 1) 9"
  by (simp add: simulate_execution_def apply_slippage_def randint_def gauss_def py_round_def
      round_half_even_def mark_filled_def Let_def draws_partial_def me_default_def
      aapl_order_def Order_init_def spec_strictly_between_def)

text \<open>
  Claim C4, amended. For an order with nothing filled and a quantity of at least 2, one
  call of \<open>simulate_execution\<close> has exactly one of four outcomes, decided by the draws:
  the first draw below 0.02 raises \<open>ExecutionError\<close> and fills nothing; otherwise the
  second draw below 0.95 fills the whole quantity (status \<open>FILLED\<close>); otherwise the third
  draw below 0.04 fills \<open>k = 1 + (r mod (quantity - 1))\<close> shares, with
  \<open>1 \<le> k \<le> quantity - 1\<close>, both bounds included (status \<open>PENDING\<close>); otherwise the
  order is canceled: status \<open>REJECTED\<close>, reason "Canceled/No liquidity.", and the result
  is price 0 and quantity 0. On a fill the reported price is
  \<open>price * (1 + slippage)\<close> rounded to 2 places, the slippage being the Gaussian draw
  \<open>z * slippage_factor\<close>.
\<close>

theorem simulate_execution_outcomes:
  assumes "2 \<le> quantity order" and "filled_quantity order = 0"
  shows "(u_fail d < 2 / 100 \<longrightarrow>
            simulate_execution me order d =
              Inl (ExecutionError ''Simulated execution failure (2% chance)''))
       \<and> (\<not> u_fail d < 2 / 100 \<and> u_fill d < 95 / 100 \<longrightarrow>
            simulate_execution me order d =
              Inr (order\<lparr>filled_quantity := quantity order, status := FILLED\<rparr>,
                   py_round (price order * (1 + gauss 0 (slippage_factor me) (z_gauss d))) 2,
                   quantity order))
       \<and> (\<not> u_fail d < 2 / 100 \<and> \<not> u_fill d < 95 / 100 \<and> u_partial d < 4 / 100 \<longrightarrow>
            1 \<le> 1 + int (r_below d mod nat (quantity order - 1))
            \<and> 1 + int (r_below d mod nat (quantity order - 1)) \<le> quantity order - 1
            \<and> simulate_execution me order d =
              Inr (order\<lparr>filled_quantity := 1 + int (r_below d mod nat (quantity order - 1)),
                         status := PENDING\<rparr>,
                   py_round (price order * (1 + gauss 0 (slippage_factor me) (z_gauss d))) 2,
                   1 + int (r_below d mod nat (quantity order - 1))))
       \<and> (\<not> u_fail d < 2 / 100 \<and> \<not> u_fill d < 95 / 100 \<and> \<not> u_partial d < 4 / 100 \<longrightarrow>
            simulate_execution me order d =
              Inr (order\<lparr>status := REJECTED, reason := ''Canceled/No liquidity.''\<rparr>, 0, 0))"
proof -
  have le: "1 \<le> quantity order - 1" using assms(1) by simp
  have k: "randint 1 (quantity order - 1) (r_below d) =
             Inr (1 + int (r_below d mod nat (quantity order - 1)))"
    using randint_value [OF le, of "r_below d"] by simp
  have r: "1 \<le> 1 + int (r_below d mod nat (quantity order - 1))
         \<and> 1 + int (r_below d mod nat (quantity order - 1)) \<le> quantity order - 1"
    using randint_range [OF le, of "r_below d"] by simp
  then have ne: "1 + int (r_below d mod nat (quantity order - 1)) \<noteq> quantity order"
    by linarith
  have pos: "0 < 1 + int (r_below d mod nat (quantity order - 1))"
    using r by linarith
  have q: "0 < quantity order" using assms(1) by simp
  show ?thesis
    using k r ne pos q assms(2)
    by (simp add: simulate_execution_def apply_slippage_def mark_filled_def mark_rejected_def
        Let_def)
qed

theorem simulate_execution_outcomes_witness:
  "simulate_execution me_default (aapl_order ''BUY'' 10 100) draws_failure =
     Inl (ExecutionError ''Simulated execution failure (2% chance)'')
   \<and> simulate_execution me_default (aapl_order ''BUY'' 10 100) (draws_full (1 / 4)) =
     Inr ((aapl_order ''BUY'' 10 100)\<lparr>filled_quantity := 10, status := FILLED\<rparr>, 100, 10)
   \<and> simulate_execution me_default (aapl_order ''BUY'' 10 100) (draws_full 3) =
     Inr ((aapl_order ''BUY'' 10 100)\<lparr>filled_quantity := 10, status := FILLED\<rparr>,
          10003 / 100, 10)
   \<and> simulate_execution me_default (aapl_order ''SELL'' 10 100) (draws_partial 12 0) =
     Inr ((aapl_order ''SELL'' 10 100)\<lparr>filled_quantity := 4, status := PENDING\<rparr>, 100, 4)
   \<and> simulate_execution me_default (aapl_order ''BUY'' 10 100) draws_cancel =
     Inr ((aapl_order ''BUY'' 10 100)
            \<lparr>status := REJECTED, reason := ''Canceled/No liquidity.''\<rparr>, 0, 0)"
  using simulate_execution_outcomes [of "aapl_order ''BUY'' 10 100" draws_failure me_default]
        simulate_execution_outcomes [of "aapl_order ''BUY'' 10 100" "draws_full (1 / 4)" me_default]
        simulate_execution_outcomes [of "aapl_order ''BUY'' 10 100" "draws_full 3" me_default]
        simulate_execution_outcomes [of "aapl_order ''SELL'' 10 100" "draws_partial 12 0" me_default]
        simulate_execution_outcomes [of "aapl_order ''BUY'' 10 100" draws_cancel me_default]
  by (simp add: aapl_order_facts draws_failure_def draws_full_def draws_partial_def
      draws_cancel_def me_default_def default_slippage_factor_def gauss_def py_round_def
      round_half_even_def Let_def)

section \<open>The runner\<close>

lemma process_signal_rejected:
  assumes "validate_order (order_manager st)
             (Order_init (symbol_md tick) qty (price_md tick) direction (id_text e))
             (clock_validate e) = (False, om1, order1)"
  shows "process_signal qty st tick direction e =
           st\<lparr>order_manager := om1, gateway := log_order (gateway st) order1 (clock_log e)\<rparr>"
  using assms by (simp add: process_signal_def Let_def)

lemma process_signal_fault:
  assumes "validate_order (order_manager st)
             (Order_init (symbol_md tick) qty (price_md tick) direction (id_text e))
             (clock_validate e) = (True, om1, order1)"
    and "simulate_execution (matching_engine st) order1 (rnd e) = Inl err"
  shows "process_signal qty st tick direction e =
           st\<lparr>order_manager := om1,
              gateway := log_order (gateway st) (handle_fault order1 err) (clock_log e)\<rparr>"
  using assms by (simp add: process_signal_def Let_def)

lemma process_signal_executed:
  assumes "validate_order (order_manager st)
             (Order_init (symbol_md tick) qty (price_md tick) direction (id_text e))
             (clock_validate e) = (True, om1, order1)"
    and "simulate_execution (matching_engine st) order1 (rnd e) =
           Inr (order2, fill_price, filled_qty)"
  shows "process_signal qty st tick direction e =
           (if 0 < filled_qty
            then st\<lparr>order_manager :=
                      (case snd (update_from_fill (portfolio st) (Some om1) order2 fill_price
                                   filled_qty) of
                         None \<Rightarrow> om1 | Some m \<Rightarrow> m),
                    portfolio :=
                      fst (update_from_fill (portfolio st) (Some om1) order2 fill_price filled_qty),
                    gateway := log_order (gateway st) order2 (clock_log e)\<rparr>
            else st\<lparr>order_manager := om1,
                    gateway := log_order (gateway st) order2 (clock_log e)\<rparr>)"
  using assms by (simp add: process_signal_def Let_def split: prod.splits)

lemma validate_order_admitted:
  "validate_order om order now = (True, om1, order1) \<Longrightarrow> order1 = order"
  by (auto simp: validate_order_def Let_def split: sum.splits if_splits)

lemma handle_fault_status: "status (handle_fault order err) = FAILED"
  by (cases err) (simp_all add: mark_failed_def)

lemma handle_fault_reason:
  "reason (handle_fault order err) =
     (case err of ExecutionError msg \<Rightarrow> msg | _ \<Rightarrow> ''Unknown Error: '' @ str_error err)"
  by (cases err) (simp_all add: mark_failed_def)

lemma process_signal_logs_one:
  "length (audit (gateway (process_signal qty st tick direction e))) =
     Suc (length (audit (gateway st)))"
  by (simp add: process_signal_def Let_def log_order_def split: prod.splits sum.splits)

lemma update_from_fill_trades:
  "trades (fst (update_from_fill pf om order fill_price filled_qty)) = trades pf"
  by (simp add: update_from_fill_def Let_def)

lemma process_signal_trades:
  "trades (portfolio (process_signal qty st tick direction e)) = trades (portfolio st)"
proof -
  obtain ok om1 order1 where v:
    "validate_order (order_manager st)
       (Order_init (symbol_md tick) qty (price_md tick) direction (id_text e))
       (clock_validate e) = (ok, om1, order1)"
    using prod_cases3 by blast
  show ?thesis
  proof (cases ok)
    case False
    with v show ?thesis by (simp add: process_signal_rejected)
  next
    case True
    show ?thesis
    proof (cases "simulate_execution (matching_engine st) order1 (rnd e)")
      case (Inl err)
      with v True show ?thesis by (simp add: process_signal_fault)
    next
      case (Inr res)
      obtain order2 fill_price filled_qty where "res = (order2, fill_price, filled_qty)"
        using prod_cases3 by blast
      with v True Inr show ?thesis
        by (simp add: process_signal_executed update_from_fill_trades)
    qed
  qed
qed

lemma process_signals_logs:
  "length (audit (gateway (process_signals qty st tick sigs))) =
     length (audit (gateway st)) + length sigs"
proof (induction sigs arbitrary: st)
  case Nil
  then show ?case by simp
next
  case (Cons s sigs)
  obtain direction e where s: "s = (direction, e)" by (cases s) auto
  show ?case by (simp add: s Cons.IH process_signal_logs_one)
qed

lemma process_signals_trades:
  "trades (portfolio (process_signals qty st tick sigs)) = trades (portfolio st)"
proof (induction sigs arbitrary: st)
  case Nil
  then show ?case by simp
next
  case (Cons s sigs)
  obtain direction e where s: "s = (direction, e)" by (cases s) auto
  show ?case by (simp add: s Cons.IH process_signal_trades)
qed

lemma process_tick_trades:
  "trades (portfolio (process_tick qty st (tick, sigs))) =
     trades (portfolio st) @
       [(timestamp tick,
         compute_equity (portfolio (process_signals qty st tick sigs))
           [(symbol_md tick, price_md tick)])]"
  by (simp add: process_tick_def record_equity_def Let_def process_signals_trades)

lemma process_tick_logs:
  "length (audit (gateway (process_tick qty st (tick, sigs)))) =
     length (audit (gateway st)) + length sigs"
  by (simp add: process_tick_def Let_def process_signals_logs)

lemma run_ticks_trades:
  "map fst (trades (portfolio (run_ticks qty st obs))) =
     map fst (trades (portfolio st)) @ map (timestamp \<circ> fst) obs"
proof (induction obs arbitrary: st)
  case Nil
  then show ?case by simp
next
  case (Cons ob obs)
  obtain tick sigs where ob: "ob = (tick, sigs)" by (cases ob) auto
  show ?case by (simp add: ob Cons.IH process_tick_trades)
qed

lemma run_ticks_logs:
  "length (audit (gateway (run_ticks qty st obs))) =
     length (audit (gateway st)) + sum_list (map (length \<circ> snd) obs)"
proof (induction obs arbitrary: st)
  case Nil
  then show ?case by simp
next
  case (Cons ob obs)
  obtain tick sigs where ob: "ob = (tick, sigs)" by (cases ob) auto
  show ?case by (simp add: ob Cons.IH process_tick_logs)
qed

lemma str_int_1: "str_int 1 = ''1''"
  by (simp add: str_int_def digit_char_def)

lemma initial_validate:
  "0 < qty \<Longrightarrow> 0 < px \<Longrightarrow> of_int qty * px \<le> 100000 \<Longrightarrow> qty \<le> 500 \<Longrightarrow>
   validate_order (order_manager initial_components) (Order_init ''AAPL'' qty px direction oid) now =
     (True, (order_manager initial_components)\<lparr>orders_timestamps := [now]\<rparr>,
      Order_init ''AAPL'' qty px direction oid)"
  by (simp add: validate_order_def validate_def Let_def initial_components_def
      OrderManager_init_def INITIAL_CASH_def default_max_orders_per_minute_def dict_get_def
      Order_init_def)

lemma env_at_facts:
  "id_text (env_at now d) = ''1700000000.0''"
  "clock_validate (env_at now d) = now"
  "rnd (env_at now d) = d"
  "clock_log (env_at now d) = now"
  by (simp_all add: env_at_def)

lemma aapl_tick_facts:
  "timestamp (aapl_tick ts px) = ts"
  "symbol_md (aapl_tick ts px) = ''AAPL''"
  "price_md (aapl_tick ts px) = px"
  by (simp_all add: aapl_tick_def)

lemma initial_components_facts:
  "audit (gateway initial_components) = []"
  "portfolio initial_components = Portfolio_init INITIAL_CASH"
  "matching_engine initial_components = me_default"
  by (simp_all add: initial_components_def Gateway_init_def me_default_def)

lemma initial_validate_tick:
  assumes "0 < qty" and "0 < px" and "of_int qty * px \<le> 100000" and "qty \<le> 500"
  shows "validate_order (order_manager initial_components)
           (Order_init (symbol_md (aapl_tick ts px)) qty (price_md (aapl_tick ts px)) direction
              (id_text (env_at now d)))
           (clock_validate (env_at now d)) =
         (True, (order_manager initial_components)\<lparr>orders_timestamps := [now]\<rparr>,
          aapl_order direction qty px)"
  using initial_validate [OF assms, of direction "''1700000000.0''" now]
  by (simp add: env_at_facts aapl_tick_facts aapl_order_def)

text \<open>
  Claim C10. For an order of quantity 1, draws that select the partial fill make
  \<open>random.randint(1, 0)\<close> raise \<open>ValueError\<close> (the range is empty), so
  \<open>simulate_execution\<close> raises an exception that is neither \<open>ExecutionError\<close> nor the
  cancellation, and returns nothing. In the runner the second \<open>except\<close> clause catches
  it: the order is logged as \<open>FAILED\<close> with a reason that starts "Unknown Error: ", and
  neither filled nor canceled.
\<close>

theorem quantity_one_partial_fill_fault:
  assumes "\<not> u_fail d < 2 / 100" and "\<not> u_fill d < 95 / 100" and "u_partial d < 4 / 100"
  shows "(quantity order = 1 \<longrightarrow>
            simulate_execution me order d =
              Inl (ValueError ''empty range in randrange(1, 1)''))
       \<and> (rnd e = d
           \<and> validate_order (order_manager st)
                (Order_init (symbol_md tick) 1 (price_md tick) direction (id_text e))
                (clock_validate e) = (True, om1, order1) \<longrightarrow>
            process_signal 1 st tick direction e =
              st\<lparr>order_manager := om1,
                 gateway :=
                   log_order (gateway st)
                     (order1\<lparr>status := FAILED,
                             reason := ''Unknown Error: empty range in randrange(1, 1)''\<rparr>)
                     (clock_log e)\<rparr>
            \<and> portfolio (process_signal 1 st tick direction e) = portfolio st)"
proof -
  have sim: "simulate_execution m ord d = Inl (ValueError ''empty range in randrange(1, 1)'')"
    if "quantity ord = 1" for m ord
    using assms that by (simp add: simulate_execution_def randint_def Let_def str_int_1)
  have run: "process_signal 1 st tick direction e =
              st\<lparr>order_manager := om1,
                 gateway :=
                   log_order (gateway st)
                     (order1\<lparr>status := FAILED,
                             reason := ''Unknown Error: empty range in randrange(1, 1)''\<rparr>)
                     (clock_log e)\<rparr>"
    if d: "rnd e = d"
      and v: "validate_order (order_manager st)
                (Order_init (symbol_md tick) 1 (price_md tick) direction (id_text e))
                (clock_validate e) = (True, om1, order1)"
  proof -
    have "order1 = Order_init (symbol_md tick) 1 (price_md tick) direction (id_text e)"
      using v by (rule validate_order_admitted)
    then have "quantity order1 = 1" by (simp add: Order_init_def)
    then have "simulate_execution (matching_engine st) order1 (rnd e) =
                 Inl (ValueError ''empty range in randrange(1, 1)'')"
      using sim d by simp
    with v show ?thesis
      by (simp add: process_signal_fault mark_failed_def)
  qed
  show ?thesis using sim run by simp
qed

theorem quantity_one_partial_fill_fault_witness:
  "simulate_execution me_default (aapl_order ''BUY'' 1 100) (draws_partial 0 0) =
     Inl (ValueError ''empty range in randrange(1, 1)'')
   \<and> audit (gateway (process_signal 1 initial_components (aapl_tick 0 100) ''BUY''
                        (env_at 5 (draws_partial 0 0)))) =
       [(5, (aapl_order ''BUY'' 1 100)
              \<lparr>status := FAILED,
                 reason := ''Unknown Error: empty range in randrange(1, 1)''\<rparr>)]
   \<and> portfolio (process_signal 1 initial_components (aapl_tick 0 100) ''BUY''
                   (env_at 5 (draws_partial 0 0))) =
       Portfolio_init INITIAL_CASH"
proof -
  have d: "\<not> u_fail (draws_partial 0 0) < 2 / 100" "\<not> u_fill (draws_partial 0 0) < 95 / 100"
    "u_partial (draws_partial 0 0) < 4 / 100"
    by (simp_all add: draws_partial_def)
  have v: "validate_order (order_manager initial_components)
             (Order_init (symbol_md (aapl_tick 0 100)) 1 (price_md (aapl_tick 0 100)) ''BUY''
                (id_text (env_at 5 (draws_partial 0 0))))
             (clock_validate (env_at 5 (draws_partial 0 0))) =
           (True, (order_manager initial_components)\<lparr>orders_timestamps := [5]\<rparr>,
            aapl_order ''BUY'' 1 100)"
    by (rule initial_validate_tick) simp_all
  note t = quantity_one_partial_fill_fault [OF d, of "aapl_order ''BUY'' 1 100" me_default
      "env_at 5 (draws_partial 0 0)" initial_components "aapl_tick 0 100" "''BUY''"
      "(order_manager initial_components)\<lparr>orders_timestamps := [5]\<rparr>"
      "aapl_order ''BUY'' 1 100"]
  have s: "simulate_execution me_default (aapl_order ''BUY'' 1 100) (draws_partial 0 0) =
     Inl (ValueError ''empty range in randrange(1, 1)'')"
    using t by (simp add: aapl_order_facts)
  have p: "process_signal 1 initial_components (aapl_tick 0 100) ''BUY''
             (env_at 5 (draws_partial 0 0)) =
           initial_components
             \<lparr>order_manager := (order_manager initial_components)\<lparr>orders_timestamps := [5]\<rparr>,
              gateway :=
                log_order (gateway initial_components)
                  ((aapl_order ''BUY'' 1 100)
                     \<lparr>status := FAILED,
                        reason := ''Unknown Error: empty range in randrange(1, 1)''\<rparr>)
                  (clock_log (env_at 5 (draws_partial 0 0)))\<rparr>"
    using t v by (simp add: env_at_facts)
  show ?thesis
    by (simp add: s p log_order_def env_at_facts initial_components_facts)
qed

text \<open>
  Claim C9. A fault raised while an order is executed is handled inside the loop body
  of its signal: the order is marked \<open>FAILED\<close>, with the message of an \<open>ExecutionError\<close>
  or with "Unknown Error: " and the message of any other exception, it is logged, the
  portfolio is untouched, and the loop goes on from there with the remaining signals.
  Every signal adds exactly one row to the audit log and every tick one sample to the
  equity curve, whatever faults occur on the way.
\<close>

theorem per_order_fault_isolation:
  "(validate_order (order_manager st)
      (Order_init (symbol_md tick) qty (price_md tick) direction (id_text e))
      (clock_validate e) = (True, om1, order1)
    \<and> simulate_execution (matching_engine st) order1 (rnd e) = Inl err \<longrightarrow>
      audit (gateway (process_signal qty st tick direction e)) =
        audit (gateway st) @ [(clock_log e, handle_fault order1 err)]
      \<and> status (handle_fault order1 err) = FAILED
      \<and> reason (handle_fault order1 err) =
          (case err of ExecutionError msg \<Rightarrow> msg | _ \<Rightarrow> ''Unknown Error: '' @ str_error err)
      \<and> portfolio (process_signal qty st tick direction e) = portfolio st
      \<and> process_signals qty st tick ((direction, e) # rest) =
          process_signals qty
            (st\<lparr>order_manager := om1,
                gateway := log_order (gateway st) (handle_fault order1 err) (clock_log e)\<rparr>)
            tick rest)
   \<and> length (audit (gateway (process_signals qty st tick sigs))) =
       length (audit (gateway st)) + length sigs
   \<and> length (audit (gateway (run_ticks qty st obs))) =
       length (audit (gateway st)) + sum_list (map (length \<circ> snd) obs)
   \<and> map fst (trades (portfolio (run_ticks qty st obs))) =
       map fst (trades (portfolio st)) @ map (timestamp \<circ> fst) obs"
proof -
  have a: "audit (gateway (process_signal qty st tick direction e)) =
        audit (gateway st) @ [(clock_log e, handle_fault order1 err)]
      \<and> status (handle_fault order1 err) = FAILED
      \<and> reason (handle_fault order1 err) =
          (case err of ExecutionError msg \<Rightarrow> msg | _ \<Rightarrow> ''Unknown Error: '' @ str_error err)
      \<and> portfolio (process_signal qty st tick direction e) = portfolio st
      \<and> process_signals qty st tick ((direction, e) # rest) =
          process_signals qty
            (st\<lparr>order_manager := om1,
                gateway := log_order (gateway st) (handle_fault order1 err) (clock_log e)\<rparr>)
            tick rest"
    if "validate_order (order_manager st)
          (Order_init (symbol_md tick) qty (price_md tick) direction (id_text e))
          (clock_validate e) = (True, om1, order1)"
      and "simulate_execution (matching_engine st) order1 (rnd e) = Inl err"
    using process_signal_fault [OF that]
    by (simp add: log_order_def handle_fault_status handle_fault_reason)
  show ?thesis
    using a process_signals_logs [of qty st tick sigs] run_ticks_logs [of qty st obs]
      run_ticks_trades [of qty st obs]
    by blast
qed

lemma failure_example:
  "simulate_execution (matching_engine initial_components) (aapl_order ''BUY'' 10 100)
     draws_failure = Inl (ExecutionError ''Simulated execution failure (2% chance)'')"
  by (simp add: simulate_execution_def draws_failure_def)

theorem per_order_fault_isolation_witness:
  "audit (gateway (process_signal DEFAULT_QTY initial_components (aapl_tick 0 100) ''BUY''
                     (env_at 5 draws_failure))) =
     [(5, (aapl_order ''BUY'' 10 100)
            \<lparr>status := FAILED, reason := ''Simulated execution failure (2% chance)''\<rparr>)]
   \<and> portfolio (process_signal DEFAULT_QTY initial_components (aapl_tick 0 100) ''BUY''
                   (env_at 5 draws_failure)) =
       Portfolio_init INITIAL_CASH
   \<and> length (audit (gateway (run_backtest_simulation
        [(aapl_tick 0 100, [(''BUY'', env_at 5 draws_failure), (''BUY'', env_at 6 (draws_full 0))]),
         (aapl_tick 60 101, [])]))) = 2
   \<and> map fst (trades (portfolio (run_backtest_simulation
        [(aapl_tick 0 100, [(''BUY'', env_at 5 draws_failure), (''BUY'', env_at 6 (draws_full 0))]),
         (aapl_tick 60 101, [])]))) = [0, 60]"
proof -
  have v: "validate_order (order_manager initial_components)
             (Order_init (symbol_md (aapl_tick 0 100)) DEFAULT_QTY (price_md (aapl_tick 0 100))
                ''BUY'' (id_text (env_at 5 draws_failure)))
             (clock_validate (env_at 5 draws_failure)) =
           (True, (order_manager initial_components)\<lparr>orders_timestamps := [5]\<rparr>,
            aapl_order ''BUY'' 10 100)"
    unfolding DEFAULT_QTY_def by (rule initial_validate_tick) simp_all
  have f: "simulate_execution (matching_engine initial_components) (aapl_order ''BUY'' 10 100)
             (rnd (env_at 5 draws_failure)) =
           Inl (ExecutionError ''Simulated execution failure (2% chance)'')"
    using failure_example by (simp add: env_at_facts)
  note t = per_order_fault_isolation [of initial_components "aapl_tick 0 100" DEFAULT_QTY
      "''BUY''" "env_at 5 draws_failure"
      "(order_manager initial_components)\<lparr>orders_timestamps := [5]\<rparr>"
      "aapl_order ''BUY'' 10 100" "ExecutionError ''Simulated execution failure (2% chance)''"
      "[]" "[]"
      "[(aapl_tick 0 100, [(''BUY'', env_at 5 draws_failure), (''BUY'', env_at 6 (draws_full 0))]),
        (aapl_tick 60 101, [])]"]
  show ?thesis
    using t v f
    by (simp add: run_backtest_simulation_def initial_components_facts env_at_facts
        aapl_tick_facts mark_failed_def log_order_def Portfolio_init_def)
qed

section \<open>The portfolio\<close>









lemma position_of_update:
  "position_of (pf\<lparr>cash := c, positions_pf := AList.update symb pos (positions_pf pf)\<rparr>) symb = pos"
  by (simp add: position_of_def dict_get_def update_conv')

lemma pf_holding_facts:
  "position_of (pf_holding q b) ''AAPL'' = \<lparr>quantity_pos = q, avg_price = b\<rparr>"
  "positions_pf (pf_holding q b) = [(''AAPL'', \<lparr>quantity_pos = q, avg_price = b\<rparr>)]"
  by (simp_all add: pf_holding_def position_of_def dict_get_def Portfolio_init_def)

text \<open>
  Claim C2, as stated, fails for a fill that flips the sign of the position: the guard
  \<open>new_qty * current_qty >= 0\<close> keeps the blend from being applied, and the cost basis
  stays what it was. A long position of 10 at 100 sold 20 at 110 becomes a short
  position of 10 whose basis is still 100, where the blend would give -320.
\<close>

theorem sign_flip_blend_counterexample:
  "positions_pf (fst (update_from_fill (pf_holding 10 100) None (aapl_order ''SELL'' 20 110) 110 20)) =
     [(''AAPL'', \<lparr>quantity_pos = - 10, avg_price = 100\<rparr>)]
   \<and> spec_blend 100 10 110 20 (- 10) = - 320
   \<and> avg_price (position_of
        (fst (update_from_fill (pf_holding 10 100) None (aapl_order ''SELL'' 20 110) 110 20))
        ''AAPL'') \<noteq> spec_blend 100 10 110 20 (- 10)"
  by (simp add: update_from_fill_def Let_def pf_holding_facts aapl_order_facts spec_blend_def
      position_of_def dict_get_def)

text \<open>
  Claim C2, amended. After a fill the position's quantity is the old quantity plus the
  filled quantity for a BUY and minus it otherwise. A BUY fill on a long or flat
  position makes the cost basis the quantity-weighted average of the old basis and the
  fill price, \<open>(basis * old + price * filled) / (old + filled)\<close>. A fill that brings the
  quantity to exactly zero resets the cost basis to zero. A fill that flips the sign of
  the position leaves the cost basis unchanged: no blend is applied, and the fill is
  not split into a close and an open.
\<close>

theorem cost_basis_update:
  "quantity_pos (position_of (fst (update_from_fill pf om order fill_price filled_qty))
                   (symbol order)) =
     (if side order = ''BUY''
      then quantity_pos (position_of pf (symbol order)) + of_int filled_qty
      else quantity_pos (position_of pf (symbol order)) - of_int filled_qty)
   \<and> (side order = ''BUY'' \<and> 0 \<le> quantity_pos (position_of pf (symbol order))
        \<and> 0 < filled_qty \<longrightarrow>
       avg_price (position_of (fst (update_from_fill pf om order fill_price filled_qty))
                    (symbol order)) =
         (avg_price (position_of pf (symbol order)) * quantity_pos (position_of pf (symbol order))
            + fill_price * of_int filled_qty)
         / (quantity_pos (position_of pf (symbol order)) + of_int filled_qty))
   \<and> (quantity_pos (position_of (fst (update_from_fill pf om order fill_price filled_qty))
                       (symbol order)) = 0 \<longrightarrow>
       avg_price (position_of (fst (update_from_fill pf om order fill_price filled_qty))
                    (symbol order)) = 0)
   \<and> (quantity_pos (position_of (fst (update_from_fill pf om order fill_price filled_qty))
                       (symbol order))
         * quantity_pos (position_of pf (symbol order)) < 0 \<longrightarrow>
       avg_price (position_of (fst (update_from_fill pf om order fill_price filled_qty))
                    (symbol order)) =
         avg_price (position_of pf (symbol order)))"
proof -
  have nn: "0 \<le> (c + real_of_int filled_qty) * c \<and> c + real_of_int filled_qty \<noteq> 0"
    if "0 \<le> c" and "0 < filled_qty" for c :: real
  proof -
    have "0 < c + real_of_int filled_qty" using that by simp
    then show ?thesis using that by simp
  qed
  show ?thesis
    using nn [of "quantity_pos (position_of pf (symbol order))"]
    by (simp add: update_from_fill_def Let_def position_of_update)
qed

theorem cost_basis_update_witness:
  "position_of (fst (update_from_fill (pf_holding 10 100) None (aapl_order ''BUY'' 10 110) 110 10))
     ''AAPL'' = \<lparr>quantity_pos = 20, avg_price = 105\<rparr>
   \<and> position_of (fst (update_from_fill (pf_holding 10 100) None (aapl_order ''SELL'' 10 110) 110 10))
     ''AAPL'' = \<lparr>quantity_pos = 0, avg_price = 0\<rparr>
   \<and> position_of (fst (update_from_fill (pf_holding 10 100) None (aapl_order ''SELL'' 20 110) 110 20))
     ''AAPL'' = \<lparr>quantity_pos = - 10, avg_price = 100\<rparr>"
proof -
  note b = cost_basis_update [of "pf_holding 10 100" None "aapl_order ''BUY'' 10 110" 110 10]
  note z = cost_basis_update [of "pf_holding 10 100" None "aapl_order ''SELL'' 10 110" 110 10]
  note f = cost_basis_update [of "pf_holding 10 100" None "aapl_order ''SELL'' 20 110" 110 20]
  have 1: "position_of (fst (update_from_fill (pf_holding 10 100) None (aapl_order ''BUY'' 10 110) 110 10))
     ''AAPL'' = \<lparr>quantity_pos = 20, avg_price = 105\<rparr>"
    using b by (simp add: aapl_order_facts pf_holding_facts)
  have 2: "position_of (fst (update_from_fill (pf_holding 10 100) None (aapl_order ''SELL'' 10 110) 110 10))
     ''AAPL'' = \<lparr>quantity_pos = 0, avg_price = 0\<rparr>"
    using z by (simp add: aapl_order_facts pf_holding_facts)
  have 3: "position_of (fst (update_from_fill (pf_holding 10 100) None (aapl_order ''SELL'' 20 110) 110 20))
     ''AAPL'' = \<lparr>quantity_pos = - 10, avg_price = 100\<rparr>"
    using f by (simp add: aapl_order_facts pf_holding_facts)
  show ?thesis using 1 2 3 by simp
qed

section \<open>The rate limit\<close>

lemma prune_expired_keeps:
  "\<forall>t \<in> set ts. now - 60 \<le> t \<Longrightarrow> prune_expired now ts = ts"
  by (cases ts) auto

lemma prune_expired_drops_head:
  "ts \<noteq> [] \<Longrightarrow> hd ts < now - 60 \<Longrightarrow> length (prune_expired now ts) < length ts"
proof (induction ts)
  case Nil
  then show ?case by simp
next
  case (Cons t ts)
  show ?case
  proof (cases ts)
    case Nil
    with Cons.prems show ?thesis by simp
  next
    case (Cons t' ts')
    show ?thesis
    proof (cases "t' < now - 60")
      case True
      then have "length (prune_expired now ts) < length ts"
        using Cons.IH Cons by simp
      with Cons.prems show ?thesis by simp
    next
      case False
      with Cons.prems Cons show ?thesis by simp
    qed
  qed
qed

lemma passes_other_checks_cong:
  "passes_other_checks om mirror order \<Longrightarrow>
   capital om' = capital om \<Longrightarrow> MAX_POSITION om' = MAX_POSITION om \<Longrightarrow>
   passes_other_checks om' mirror order"
  by (simp add: passes_other_checks_def)

lemma validate_order_admit_step:
  assumes "passes_other_checks om mirror order"
    and "\<forall>t \<in> set (orders_timestamps om). now - 60 \<le> t"
    and "int (length (orders_timestamps om)) < MAX_ORDERS_PER_MIN om"
  shows "validate_order (om\<lparr>positions := mirror\<rparr>) order now =
           (True, om\<lparr>positions := mirror, orders_timestamps := orders_timestamps om @ [now]\<rparr>,
            order)"
  using assms
  by (auto simp: validate_order_def validate_def Let_def passes_other_checks_def
      prune_expired_keeps)

lemma validate_order_rate_reject:
  assumes "passes_other_checks om mirror order"
    and "MAX_ORDERS_PER_MIN om \<le> int (length (prune_expired now (orders_timestamps om)))"
  shows "validate_order (om\<lparr>positions := mirror\<rparr>) order now =
           (False,
            om\<lparr>positions := mirror,
               orders_timestamps := prune_expired now (orders_timestamps om)\<rparr>,
            order\<lparr>status := REJECTED, reason := ''Rate limit exceeded.''\<rparr>)"
  using assms
  by (auto simp: validate_order_def validate_def Let_def passes_other_checks_def
      mark_rejected_def)

lemma validate_order_rate_admit:
  assumes "passes_other_checks om mirror order"
    and "int (length (prune_expired now (orders_timestamps om))) < MAX_ORDERS_PER_MIN om"
  shows "fst (validate_order (om\<lparr>positions := mirror\<rparr>) order now)"
  using assms
  by (auto simp: validate_order_def validate_def Let_def passes_other_checks_def)

lemma validate_all_append:
  "validate_all om (xs @ ys) =
     (fst (validate_all om xs) @ fst (validate_all (snd (validate_all om xs)) ys),
      snd (validate_all (snd (validate_all om xs)) ys))"
  by (induction xs arbitrary: om) (auto split: prod.splits)

lemma validate_all_admits:
  assumes "\<forall>(mirror, order, now) \<in> set subs. passes_other_checks om mirror order"
    and "\<forall>(mirror, order, now) \<in> set subs. \<forall>t \<in> set (orders_timestamps om). now - 60 \<le> t"
    and "\<forall>s \<in> set subs. \<forall>s' \<in> set subs. snd (snd s') - 60 \<le> snd (snd s)"
    and "int (length (orders_timestamps om) + length subs) \<le> MAX_ORDERS_PER_MIN om"
  shows "fst (validate_all om subs) = map (\<lambda>(mirror, order, now). (True, order)) subs
       \<and> orders_timestamps (snd (validate_all om subs)) =
           orders_timestamps om @ map (\<lambda>(mirror, order, now). now) subs
       \<and> MAX_ORDERS_PER_MIN (snd (validate_all om subs)) = MAX_ORDERS_PER_MIN om
       \<and> capital (snd (validate_all om subs)) = capital om
       \<and> MAX_POSITION (snd (validate_all om subs)) = MAX_POSITION om"
  using assms
proof (induction subs arbitrary: om)
  case Nil
  then show ?case by simp
next
  case (Cons s subs)
  obtain mirror order now where s: "s = (mirror, order, now)"
    using prod_cases3 by blast
  let ?om1 = "om\<lparr>positions := mirror, orders_timestamps := orders_timestamps om @ [now]\<rparr>"
  have a1: "passes_other_checks om mirror order"
    using Cons.prems(1) s by simp
  have a2: "\<forall>t \<in> set (orders_timestamps om). now - 60 \<le> t"
    using Cons.prems(2) s by simp
  have a3: "int (length (orders_timestamps om)) < MAX_ORDERS_PER_MIN om"
    using Cons.prems(4) by simp
  have step: "validate_order (om\<lparr>positions := mirror\<rparr>) order now = (True, ?om1, order)"
    using a1 a2 a3 by (rule validate_order_admit_step)
  have p1: "\<forall>(mirror, order, now) \<in> set subs. passes_other_checks ?om1 mirror order"
  proof (clarify)
    fix m' o' now'
    assume "(m', o', now') \<in> set subs"
    then have "passes_other_checks om m' o'" using Cons.prems(1) by auto
    then show "passes_other_checks ?om1 m' o'"
      by (rule passes_other_checks_cong) simp_all
  qed
  have p2: "\<forall>(mirror, order, now') \<in> set subs. \<forall>t \<in> set (orders_timestamps ?om1). now' - 60 \<le> t"
  proof (clarify)
    fix m' o' now' t
    assume in_subs: "(m', o', now') \<in> set subs" and t: "t \<in> set (orders_timestamps ?om1)"
    show "now' - 60 \<le> t"
    proof (cases "t = now")
      case True
      have "snd (snd (m', o', now')) - 60 \<le> snd (snd s)"
        using Cons.prems(3) in_subs by (meson list.set_intros)
      then show ?thesis using True s by simp
    next
      case False
      then have "t \<in> set (orders_timestamps om)" using t by simp
      then show ?thesis using Cons.prems(2) in_subs by fastforce
    qed
  qed
  have p3: "\<forall>s \<in> set subs. \<forall>s' \<in> set subs. snd (snd s') - 60 \<le> snd (snd s)"
    using Cons.prems(3) by simp
  have p4: "int (length (orders_timestamps ?om1) + length subs) \<le> MAX_ORDERS_PER_MIN ?om1"
    using Cons.prems(4) by simp
  note ih = Cons.IH [OF p1 p2 p3 p4]
  show ?case using ih step s by (auto split: prod.splits)
qed

lemma full_fill_at:
  "0 < qty \<Longrightarrow>
   simulate_execution me_default (aapl_order direction qty px) (draws_full 0) =
     Inr ((aapl_order direction qty px)\<lparr>filled_quantity := qty, status := FILLED\<rparr>,
          py_round px 2, qty)"
  by (simp add: simulate_execution_def apply_slippage_def gauss_def mark_filled_def Let_def
      draws_full_def aapl_order_facts)

lemma py_round_100: "py_round 100 2 = 100"
  by (simp add: py_round_def round_half_even_def Let_def)

lemma dict_get_update: "dict_get (AList.update k v d) k dflt = v"
  by (simp add: dict_get_def update_conv')

lemma run_ticks_append:
  "run_ticks qty st (xs @ ys) = run_ticks qty (run_ticks qty st xs) ys"
  by (induction xs arbitrary: st) auto

lemma ledger_ok_initial: "ledger_ok initial_components 0 0"
  by (simp add: ledger_ok_def initial_components_def OrderManager_init_def
      Portfolio_init_def INITIAL_CASH_def default_max_orders_per_minute_def dict_get_def
      position_of_def me_default_def)

lemma ledger_ok_window:
  assumes "ledger_ok st k q" and "0 \<le> now" and "now \<le> 60"
  shows "\<forall>t \<in> set (orders_timestamps (order_manager st)). now - 60 \<le> t"
proof
  fix t assume "t \<in> set (orders_timestamps (order_manager st))"
  then have "0 \<le> t" using assms(1) by (simp add: ledger_ok_def list_all_iff)
  then show "now - 60 \<le> t" using assms(3) by simp
qed

lemma ledger_ok_admit:
  assumes ok: "ledger_ok st k q" and k: "k < 50" and now: "0 \<le> now" "now \<le> 60"
    and pos: "direction = ''BUY'' \<and> q + 10 \<le> 500 \<or> direction = ''SELL'' \<and> - 500 \<le> q - 10"
  shows "validate_order (order_manager st)
           (Order_init (symbol_md (aapl_tick obs 100)) 10 (price_md (aapl_tick obs 100)) direction
              (id_text (env_at now d)))
           (clock_validate (env_at now d)) =
         (True,
          (order_manager st)\<lparr>orders_timestamps := orders_timestamps (order_manager st) @ [now]\<rparr>,
          aapl_order direction 10 100)"
proof -
  let ?om = "order_manager st"
  have p: "passes_other_checks ?om (positions ?om) (aapl_order direction 10 100)"
    using ok pos by (auto simp: passes_other_checks_def ledger_ok_def aapl_order_facts)
  have l: "int (length (orders_timestamps ?om)) < MAX_ORDERS_PER_MIN ?om"
    using ok k by (simp add: ledger_ok_def)
  show ?thesis
    using validate_order_admit_step [OF p ledger_ok_window [OF ok now] l]
    by (simp add: env_at_facts aapl_tick_facts aapl_order_def)
qed

lemma ledger_ok_fill:
  assumes ok: "ledger_ok st k q" and k: "k < 50" and now: "0 \<le> now" "now \<le> 60"
    and pos: "direction = ''BUY'' \<and> q + 10 \<le> 500 \<or> direction = ''SELL'' \<and> - 500 \<le> q - 10"
  shows "ledger_ok (process_signal 10 st (aapl_tick obs 100) direction (env_at now (draws_full 0)))
           (Suc k) (if direction = ''BUY'' then q + 10 else q - 10)
       \<and> logged_statuses (process_signal 10 st (aapl_tick obs 100) direction
                              (env_at now (draws_full 0))) =
         logged_statuses st @ [FILLED]"
proof -
  note v = ledger_ok_admit [OF ok k now pos, of obs "draws_full 0"]
  have me: "matching_engine st = me_default" using ok by (simp add: ledger_ok_def)
  have x: "simulate_execution (matching_engine st) (aapl_order direction 10 100)
             (rnd (env_at now (draws_full 0))) =
           Inr ((aapl_order direction 10 100)\<lparr>filled_quantity := 10, status := FILLED\<rparr>, 100, 10)"
    using full_fill_at [of 10 direction 100] by (simp add: me env_at_facts py_round_100)
  show ?thesis
    using ok now
    by (simp add: process_signal_executed [OF v x] ledger_ok_def update_from_fill_def Let_def
        aapl_order_facts dict_get_update position_of_update log_order_def
        logged_statuses_def)
qed

lemma ledger_ok_record_equity:
  "ledger_ok (st\<lparr>portfolio := record_equity (portfolio st) tick\<rparr>) k q = ledger_ok st k q"
  by (simp add: ledger_ok_def record_equity_def Let_def position_of_def)

lemma ledger_ok_tick:
  assumes "ledger_ok st k q" and "k < 50" and "0 \<le> now" "now \<le> 60"
    and "direction = ''BUY'' \<and> q + 10 \<le> 500 \<or> direction = ''SELL'' \<and> - 500 \<le> q - 10"
  shows "ledger_ok (process_tick 10 st (aapl_tick obs 100, [(direction, env_at now (draws_full 0))]))
           (Suc k) (if direction = ''BUY'' then q + 10 else q - 10)
       \<and> logged_statuses (process_tick 10 st
                              (aapl_tick obs 100, [(direction, env_at now (draws_full 0))])) =
         logged_statuses st @ [FILLED]"
  using ledger_ok_fill [OF assms, of obs]
  by (simp add: process_tick_def Let_def ledger_ok_record_equity logged_statuses_def)

lemma ledger_ok_round_trips:
  assumes "ledger_ok st k 0" and "k + 2 * n \<le> 50" and "0 \<le> now"
    and "now + real n * (2 / 100) \<le> 60"
  shows "ledger_ok (run_ticks 10 st (round_trips n dt obs now)) (k + 2 * n) 0
       \<and> logged_statuses (run_ticks 10 st (round_trips n dt obs now)) =
         logged_statuses st @ replicate (2 * n) FILLED"
  using assms
proof (induction n arbitrary: st k obs now)
  case 0
  then show ?case by simp
next
  case (Suc n)
  let ?st1 = "process_tick 10 st (aapl_tick obs 100, [(''BUY'', env_at now (draws_full 0))])"
  let ?st2 = "process_tick 10 ?st1
                (aapl_tick (obs + dt) 100, [(''SELL'', env_at (now + 1 / 100) (draws_full 0))])"
  have e: "real (Suc n) * (2 / 100) = real n * (2 / 100) + 2 / 100"
    by (simp add: algebra_simps)
  have nn: "0 \<le> real n * (2 / 100)" by simp
  have r: "now + 2 / 100 + real n * (2 / 100) \<le> 60"
    using Suc.prems(4) e by linarith
  have n60: "now \<le> 60" "now + 1 / 100 \<le> 60"
    using r nn by linarith+
  have 1: "ledger_ok ?st1 (Suc k) 10
         \<and> logged_statuses ?st1 =
           logged_statuses st @ [FILLED]"
    using ledger_ok_tick [OF Suc.prems(1), of now "''BUY''" obs] Suc.prems n60 by simp
  have 2: "ledger_ok ?st2 (Suc (Suc k)) 0
         \<and> logged_statuses ?st2 =
           logged_statuses ?st1 @ [FILLED]"
    using ledger_ok_tick [of ?st1 "Suc k" 10 "now + 1 / 100" "''SELL''" "obs + dt"] 1
      Suc.prems n60 by simp
  have 3: "ledger_ok (run_ticks 10 ?st2 (round_trips n dt (obs + 2 * dt) (now + 2 / 100)))
             (Suc (Suc k) + 2 * n) 0
         \<and> logged_statuses (run_ticks 10 ?st2
                                (round_trips n dt (obs + 2 * dt) (now + 2 / 100))) =
           logged_statuses ?st2 @ replicate (2 * n) FILLED"
    using Suc.prems(2,3) r 2 by (intro Suc.IH) simp_all
  show ?case using 1 2 3 by (simp add: replicate_append_same)
qed

lemma ledger_ok_rate_reject:
  assumes ok: "ledger_ok st 50 0" and now: "0 \<le> now" "now \<le> 60"
  shows "ledger_ok (process_tick 10 st (aapl_tick obs 100, [(''BUY'', env_at now d)])) 50 0
       \<and> audit (gateway (process_tick 10 st (aapl_tick obs 100, [(''BUY'', env_at now d)]))) =
           audit (gateway st) @
             [(now, (aapl_order ''BUY'' 10 100)
                      \<lparr>status := REJECTED, reason := ''Rate limit exceeded.''\<rparr>)]"
proof -
  let ?om = "order_manager st"
  have p: "passes_other_checks ?om (positions ?om) (aapl_order ''BUY'' 10 100)"
    using ok by (auto simp: passes_other_checks_def ledger_ok_def aapl_order_facts)
  note t = ledger_ok_window [OF ok now]
  have l: "MAX_ORDERS_PER_MIN ?om \<le> int (length (prune_expired now (orders_timestamps ?om)))"
    using ok by (simp add: ledger_ok_def prune_expired_keeps [OF t])
  have "validate_order (order_manager st)
           (Order_init (symbol_md (aapl_tick obs 100)) 10 (price_md (aapl_tick obs 100)) ''BUY''
              (id_text (env_at now d)))
           (clock_validate (env_at now d)) =
         (False, ?om\<lparr>orders_timestamps := prune_expired now (orders_timestamps ?om)\<rparr>,
          (aapl_order ''BUY'' 10 100)\<lparr>status := REJECTED, reason := ''Rate limit exceeded.''\<rparr>)"
    using validate_order_rate_reject [OF p l]
    by (simp add: env_at_facts aapl_tick_facts aapl_order_def)
  then have ps: "process_signal 10 st (aapl_tick obs 100) ''BUY'' (env_at now d) =
      st\<lparr>order_manager := ?om\<lparr>orders_timestamps := orders_timestamps ?om\<rparr>,
         gateway := log_order (gateway st)
           ((aapl_order ''BUY'' 10 100)\<lparr>status := REJECTED, reason := ''Rate limit exceeded.''\<rparr>)
           now\<rparr>"
    (is "_ = ?st'")
    by (simp add: process_signal_rejected env_at_facts prune_expired_keeps [OF t])
  have lo: "ledger_ok ?st' 50 0"
    using ok by (simp add: ledger_ok_def)
  have pt: "process_tick 10 st (aapl_tick obs 100, [(''BUY'', env_at now d)]) =
              ?st'\<lparr>portfolio := record_equity (portfolio ?st') (aapl_tick obs 100)\<rparr>"
    by (simp add: process_tick_def Let_def ps)
  have 1: "ledger_ok (process_tick 10 st (aapl_tick obs 100, [(''BUY'', env_at now d)])) 50 0"
    unfolding pt using lo by (simp only: ledger_ok_record_equity)
  have 2: "audit (gateway (process_tick 10 st (aapl_tick obs 100, [(''BUY'', env_at now d)]))) =
           audit (gateway st) @
             [(now, (aapl_order ''BUY'' 10 100)
                      \<lparr>status := REJECTED, reason := ''Rate limit exceeded.''\<rparr>)]"
    unfolding pt by (simp add: log_order_def)
  show ?thesis using 1 2 by simp
qed

lemma round_trips_last_timestamp:
  "timestamp (fst (last (round_trips (Suc n) dt obs now))) = obs + dt * (2 * real n + 1)"
proof (induction n arbitrary: obs now)
  case 0
  then show ?case by (simp add: aapl_tick_facts)
next
  case (Suc n)
  have ne: "round_trips (Suc n) dt (obs + 2 * dt) (now + 2 / 100) \<noteq> []"
    by simp
  have "round_trips (Suc (Suc n)) dt obs now =
          (aapl_tick obs 100, [(''BUY'', env_at now (draws_full 0))])
          # (aapl_tick (obs + dt) 100, [(''SELL'', env_at (now + 1 / 100) (draws_full 0))])
          # round_trips (Suc n) dt (obs + 2 * dt) (now + 2 / 100)"
    by (rule round_trips.simps(2))
  then have "last (round_trips (Suc (Suc n)) dt obs now) =
               last (round_trips (Suc n) dt (obs + 2 * dt) (now + 2 / 100))"
    using ne by (simp only: last_ConsR list.distinct not_False_eq_True)
  then show ?case
    using Suc.IH [of "obs + 2 * dt" "now + 2 / 100"]
    by (simp only: of_nat_Suc) (simp add: algebra_simps)
qed

lemma round_trips_length: "length (round_trips n dt obs now) = 2 * n"
  by (induction n arbitrary: obs now) simp_all

text \<open>
  Claim C3, as stated, fails: \<open>validate_order\<close> reads the wall clock (\<open>time.time()\<close>) and
  never sees the timestamp of an observation. In the run below fifty ticks, one per
  second of observation time from 0 to 49, carry one signal each, BUY and SELL in
  turn; all fifty orders are admitted and filled while the clock goes from 0 to 0.49
  seconds. The tick at observation time 50 carries the 51st order of that minute,
  which is rejected with "Rate limit exceeded.". The next tick comes an hour of
  observation time later, at 3650, and is processed when the clock reads 0.51: its
  order passes the structural, capital and position checks, and it is rejected with
  "Rate limit exceeded." again, although far more than 60 simulated seconds have
  elapsed.
\<close>

theorem rate_limit_observation_time_counterexample:
  "length (round_trips 25 1 0 0) = 50
   \<and> timestamp (fst (last (round_trips 25 1 0 0))) = 49
   \<and> logged_statuses (run_backtest_simulation (round_trips 25 1 0 0)) =
       replicate 50 FILLED
   \<and> snd (last (audit (gateway (run_backtest_simulation
        (round_trips 25 1 0 0
         @ [(aapl_tick 50 100, [(''BUY'', env_at (50 / 100) (draws_full 0))])]))))) =
       (aapl_order ''BUY'' 10 100)\<lparr>status := REJECTED, reason := ''Rate limit exceeded.''\<rparr>
   \<and> snd (last (audit (gateway (run_backtest_simulation
        (round_trips 25 1 0 0
         @ [(aapl_tick 50 100, [(''BUY'', env_at (50 / 100) (draws_full 0))]),
            (aapl_tick 3650 100, [(''BUY'', env_at (51 / 100) (draws_full 0))])]))))) =
       (aapl_order ''BUY'' 10 100)\<lparr>status := REJECTED, reason := ''Rate limit exceeded.''\<rparr>"
proof -
  let ?st = "run_ticks 10 initial_components (round_trips 25 1 0 0)"
  let ?st51 = "process_tick 10 ?st (aapl_tick 50 100, [(''BUY'', env_at (50 / 100) (draws_full 0))])"
  let ?st52 = "process_tick 10 ?st51
                 (aapl_tick 3650 100, [(''BUY'', env_at (51 / 100) (draws_full 0))])"
  have ok: "ledger_ok ?st 50 0
          \<and> logged_statuses ?st =
            logged_statuses initial_components @ replicate (2 * 25) FILLED"
    using ledger_ok_round_trips [OF ledger_ok_initial, of 25 0 1 0] by simp
  have a: "length (round_trips 25 1 0 0) = 50"
    by (simp add: round_trips_length)
  have b: "timestamp (fst (last (round_trips 25 1 0 0))) = 49"
    using round_trips_last_timestamp [of 24 1 0 0] by simp
  have c: "logged_statuses ?st = replicate 50 FILLED"
    using ok by (simp add: logged_statuses_def initial_components_facts)
  have d: "ledger_ok ?st51 50 0
         \<and> audit (gateway ?st51) =
           audit (gateway ?st) @
             [(50 / 100, (aapl_order ''BUY'' 10 100)
                        \<lparr>status := REJECTED, reason := ''Rate limit exceeded.''\<rparr>)]"
    using ok by (intro ledger_ok_rate_reject) simp_all
  have e: "ledger_ok ?st52 50 0
         \<and> audit (gateway ?st52) =
           audit (gateway ?st51) @
             [(51 / 100, (aapl_order ''BUY'' 10 100)
                        \<lparr>status := REJECTED, reason := ''Rate limit exceeded.''\<rparr>)]"
    using d by (intro ledger_ok_rate_reject) simp_all
  have r51: "run_backtest_simulation
        (round_trips 25 1 0 0
         @ [(aapl_tick 50 100, [(''BUY'', env_at (50 / 100) (draws_full 0))])]) = ?st51"
    by (simp add: run_backtest_simulation_def DEFAULT_QTY_def run_ticks_append)
  have r52: "run_backtest_simulation
        (round_trips 25 1 0 0
         @ [(aapl_tick 50 100, [(''BUY'', env_at (50 / 100) (draws_full 0))]),
            (aapl_tick 3650 100, [(''BUY'', env_at (51 / 100) (draws_full 0))])]) = ?st52"
    by (simp add: run_backtest_simulation_def DEFAULT_QTY_def run_ticks_append)
  have r50: "run_backtest_simulation (round_trips 25 1 0 0) = ?st"
    by (simp add: run_backtest_simulation_def DEFAULT_QTY_def)
  show ?thesis
    unfolding r50 r51 r52 using a b c d e by simp
qed

lemma burst_length: "length (burst n now) = n"
  by (induction n arbitrary: now) simp_all

lemma burst_members:
  "s \<in> set (burst n now) \<Longrightarrow>
   fst s = [] \<and> fst (snd s) = aapl_order ''BUY'' 10 100
   \<and> now \<le> snd (snd s) \<and> snd (snd s) \<le> now + real n - 1"
proof (induction n arbitrary: now)
  case 0
  then show ?case by simp
next
  case (Suc n)
  show ?case
  proof (cases "s = ([], aapl_order ''BUY'' 10 100, now)")
    case True
    then show ?thesis by simp
  next
    case False
    then have "s \<in> set (burst n (now + 1))" using Suc.prems by simp
    then show ?thesis using Suc.IH [of "now + 1"] by simp
  qed
qed

lemma burst_hd: "hd (burst (Suc n) now) = ([], aapl_order ''BUY'' 10 100, now)"
  by simp

lemma admitted_flags:
  "map fst (map (\<lambda>(mirror, order, now). (True, order)) xs) = replicate (length xs) True"
  by (induction xs) (auto split: prod.splits)

lemma admitted_orders:
  "map snd (map (\<lambda>(mirror, order, now). (True, order)) xs) =
     map (\<lambda>(mirror, order, now). order) xs"
  by (induction xs) (auto split: prod.splits)

text \<open>
  Claim C3, amended: the minute of the rate limit is a minute of the wall clock that
  \<open>validate_order\<close> reads when it is called, not of observation time. Take an order
  manager with an empty window and the ceiling 50, and 51 calls of \<open>validate_order\<close>
  whose orders pass the structural, capital and position checks and whose clock
  readings lie within 60 seconds of one another. The first 50 orders are admitted and
  the 51st is rejected with reason "Rate limit exceeded."; the window then holds the 50
  readings of the admitted orders. A later order that passes the other checks and is
  validated more than 60 seconds after the first of these readings is admitted again:
  the expired reading is pruned on that call.
\<close>

theorem rate_limit_wall_clock:
  assumes "orders_timestamps om = []" and "MAX_ORDERS_PER_MIN om = 50"
    and "length subs = 51"
    and "\<forall>(mirror, order, now) \<in> set subs. passes_other_checks om mirror order"
    and "\<forall>s \<in> set subs. \<forall>s' \<in> set subs. snd (snd s') - 60 \<le> snd (snd s)"
  shows "map fst (fst (validate_all om subs)) = replicate 50 True @ [False]
       \<and> map snd (fst (validate_all om subs)) =
           map (\<lambda>(mirror, order, now). order) (butlast subs)
           @ [(fst (snd (last subs)))\<lparr>status := REJECTED, reason := ''Rate limit exceeded.''\<rparr>]
       \<and> orders_timestamps (snd (validate_all om subs)) =
           map (\<lambda>(mirror, order, now). now) (butlast subs)
       \<and> (passes_other_checks om mirror order \<and> snd (snd (hd subs)) < now - 60 \<longrightarrow>
           fst (validate_order ((snd (validate_all om subs))\<lparr>positions := mirror\<rparr>) order now))"
proof -
  let ?xs = "butlast subs"
  obtain m l t where last: "last subs = (m, l, t)"
    using prod_cases3 by blast
  have ne: "subs \<noteq> []" using assms(3) by auto
  have split: "subs = ?xs @ [(m, l, t)]"
    using ne last by (metis append_butlast_last_id)
  have len: "length ?xs = 50" using assms(3) by simp
  have sub: "set ?xs \<subseteq> set subs" by (meson in_set_butlastD subsetI)
  have in_last: "(m, l, t) \<in> set subs" using ne last by (metis last_in_set)
  have p1: "\<forall>(mirror, order, now) \<in> set ?xs. passes_other_checks om mirror order"
    using assms(4) sub by blast
  have p2: "\<forall>(mirror, order, now) \<in> set ?xs. \<forall>t \<in> set (orders_timestamps om). now - 60 \<le> t"
    using assms(1) by simp
  have p3: "\<forall>s \<in> set ?xs. \<forall>s' \<in> set ?xs. snd (snd s') - 60 \<le> snd (snd s)"
    using assms(5) sub by blast
  have p4: "int (length (orders_timestamps om) + length ?xs) \<le> MAX_ORDERS_PER_MIN om"
    using assms(1,2) len by simp
  note adm = validate_all_admits [OF p1 p2 p3 p4]
  let ?om50 = "snd (validate_all om ?xs)"
  have ts50: "orders_timestamps ?om50 = map (\<lambda>(mirror, order, now). now) ?xs"
    using adm assms(1) by simp
  have max50: "MAX_ORDERS_PER_MIN ?om50 = 50" using adm assms(2) by simp
  have pl: "passes_other_checks ?om50 m l"
  proof (rule passes_other_checks_cong)
    show "passes_other_checks om m l" using assms(4) in_last by blast
    show "capital ?om50 = capital om" using adm by simp
    show "MAX_POSITION ?om50 = MAX_POSITION om" using adm by simp
  qed
  have keep: "\<forall>t' \<in> set (orders_timestamps ?om50). t - 60 \<le> t'"
  proof
    fix t' assume "t' \<in> set (orders_timestamps ?om50)"
    then obtain s where s: "s \<in> set ?xs" "t' = snd (snd s)"
      using ts50 by (auto split: prod.splits)
    have "snd (snd (m, l, t)) - 60 \<le> snd (snd s)"
      using assms(5) in_last s(1) sub by blast
    then show "t - 60 \<le> t'" using s(2) by simp
  qed
  have full: "MAX_ORDERS_PER_MIN ?om50 \<le> int (length (prune_expired t (orders_timestamps ?om50)))"
    using prune_expired_keeps [OF keep] ts50 max50 len by simp
  have rej: "validate_order (?om50\<lparr>positions := m\<rparr>) l t =
           (False,
            ?om50\<lparr>positions := m,
               orders_timestamps := prune_expired t (orders_timestamps ?om50)\<rparr>,
            l\<lparr>status := REJECTED, reason := ''Rate limit exceeded.''\<rparr>)"
    using pl full by (rule validate_order_rate_reject)
  have all: "validate_all om subs =
          (fst (validate_all om ?xs) @ [(False, l\<lparr>status := REJECTED, reason := ''Rate limit exceeded.''\<rparr>)],
           ?om50\<lparr>positions := m,
               orders_timestamps := prune_expired t (orders_timestamps ?om50)\<rparr>)"
    using rej by (subst split) (simp add: validate_all_append)
  have r1: "map fst (fst (validate_all om subs)) = replicate 50 True @ [False]"
    using all adm len admitted_flags [of ?xs] by simp
  have r2: "map snd (fst (validate_all om subs)) =
           map (\<lambda>(mirror, order, now). order) ?xs
           @ [(fst (snd (last subs)))\<lparr>status := REJECTED, reason := ''Rate limit exceeded.''\<rparr>]"
    using all adm last admitted_orders [of ?xs] by simp
  have fin: "orders_timestamps (snd (validate_all om subs)) = orders_timestamps ?om50"
    using all prune_expired_keeps [OF keep] by simp
  have r3: "orders_timestamps (snd (validate_all om subs)) =
           map (\<lambda>(mirror, order, now). now) ?xs"
    using fin ts50 by simp
  have r4: "fst (validate_order ((snd (validate_all om subs))\<lparr>positions := mirror\<rparr>) order now)"
    if pc: "passes_other_checks om mirror order" and late: "snd (snd (hd subs)) < now - 60"
  proof -
    let ?fin = "snd (validate_all om subs)"
    have xs_ne: "?xs \<noteq> []" by (metis len list.size(3) zero_neq_numeral)
    have hd_eq: "hd subs = hd ?xs" using split xs_ne by (metis hd_append2)
    have ts_ne: "orders_timestamps ?fin \<noteq> []" using r3 xs_ne by simp
    have hd_ts: "hd (orders_timestamps ?fin) = snd (snd (hd subs))"
      using r3 xs_ne hd_eq by (simp add: hd_map case_prod_unfold)
    have "length (prune_expired now (orders_timestamps ?fin)) < length (orders_timestamps ?fin)"
      using ts_ne hd_ts late by (intro prune_expired_drops_head) simp_all
    then have lt: "int (length (prune_expired now (orders_timestamps ?fin))) < MAX_ORDERS_PER_MIN ?fin"
      using r3 len all max50 by simp
    have pf: "passes_other_checks ?fin mirror order"
    proof (rule passes_other_checks_cong)
      show "passes_other_checks om mirror order" by (rule pc)
      show "capital ?fin = capital om" using all adm by simp
      show "MAX_POSITION ?fin = MAX_POSITION om" using all adm by simp
    qed
    show ?thesis using pf lt by (rule validate_order_rate_admit)
  qed
  show ?thesis using r1 r2 r3 r4 by blast
qed

lemma initial_order_manager_facts:
  "orders_timestamps (order_manager initial_components) = []"
  "MAX_ORDERS_PER_MIN (order_manager initial_components) = 50"
  "capital (order_manager initial_components) = 100000"
  "MAX_POSITION (order_manager initial_components) = 500"
  by (simp_all add: initial_components_def OrderManager_init_def INITIAL_CASH_def
      default_max_orders_per_minute_def)

lemma passes_other_checks_example:
  "passes_other_checks (order_manager initial_components) [] (aapl_order ''BUY'' 10 100)"
  by (simp add: passes_other_checks_def initial_order_manager_facts aapl_order_facts
      dict_get_def)

theorem rate_limit_wall_clock_witness:
  "map fst (fst (validate_all (order_manager initial_components) (burst 51 0))) =
     replicate 50 True @ [False]
   \<and> last (map snd (fst (validate_all (order_manager initial_components) (burst 51 0)))) =
       (aapl_order ''BUY'' 10 100)\<lparr>status := REJECTED, reason := ''Rate limit exceeded.''\<rparr>
   \<and> length (orders_timestamps (snd (validate_all (order_manager initial_components)
                                       (burst 51 0)))) = 50
   \<and> fst (validate_order
            ((snd (validate_all (order_manager initial_components) (burst 51 0)))
               \<lparr>positions := []\<rparr>)
            (aapl_order ''BUY'' 10 100) 61)"
proof -
  let ?om = "order_manager initial_components"
  have h3: "length (burst 51 0) = 51" by (rule burst_length)
  have h4: "\<forall>(mirror, order, now) \<in> set (burst 51 0). passes_other_checks ?om mirror order"
  proof (clarify)
    fix m l t assume "(m, l, t) \<in> set (burst 51 0)"
    then have "m = [] \<and> l = aapl_order ''BUY'' 10 100"
      using burst_members [of "(m, l, t)" 51 0] by simp
    then show "passes_other_checks ?om m l"
      using passes_other_checks_example by simp
  qed
  have h5: "\<forall>s \<in> set (burst 51 0). \<forall>s' \<in> set (burst 51 0). snd (snd s') - 60 \<le> snd (snd s)"
  proof (intro ballI)
    fix s s' assume "s \<in> set (burst 51 0)" and "s' \<in> set (burst 51 0)"
    then have "0 \<le> snd (snd s)" and "snd (snd s') \<le> 50"
      using burst_members [of s 51 0] burst_members [of s' 51 0] by simp_all
    then show "snd (snd s') - 60 \<le> snd (snd s)" by simp
  qed
  have ne: "burst 51 0 \<noteq> []" using h3 by auto
  have l: "fst (snd (last (burst 51 0))) = aapl_order ''BUY'' 10 100"
    using burst_members [of "last (burst 51 0)" 51 0] last_in_set [OF ne] by simp
  have h: "hd (burst 51 0) = ([], aapl_order ''BUY'' 10 100, 0)"
    using burst_hd [of 50 0] by simp
  note t = rate_limit_wall_clock [OF initial_order_manager_facts(1,2) h3 h4 h5,
      of "[]" "aapl_order ''BUY'' 10 100" 61]
  have 1: "map fst (fst (validate_all ?om (burst 51 0))) = replicate 50 True @ [False]"
    using t by blast
  have 2: "last (map snd (fst (validate_all ?om (burst 51 0)))) =
       (aapl_order ''BUY'' 10 100)\<lparr>status := REJECTED, reason := ''Rate limit exceeded.''\<rparr>"
    using t l by simp
  have 3: "length (orders_timestamps (snd (validate_all ?om (burst 51 0)))) = 50"
    using t h3 by simp
  have 4: "fst (validate_order ((snd (validate_all ?om (burst 51 0)))\<lparr>positions := []\<rparr>)
            (aapl_order ''BUY'' 10 100) 61)"
    using t h passes_other_checks_example by simp
  show ?thesis using 1 2 3 4 by blast
qed

section \<open>Capital and cash\<close>

lemma validate_order_capital:
  "capital (fst (snd (validate_order om order now))) = capital om"
  by (simp add: validate_order_def Let_def split: sum.splits)

lemma update_from_fill_capital:
  "snd (update_from_fill pf (Some om) order fill_price filled_qty) = Some om' \<Longrightarrow>
   capital om' = capital om"
  by (auto simp: update_from_fill_def Let_def)

lemma process_signal_capital:
  "capital (order_manager (process_signal qty st tick direction e)) = capital (order_manager st)"
proof -
  obtain ok om1 order1 where v:
    "validate_order (order_manager st)
       (Order_init (symbol_md tick) qty (price_md tick) direction (id_text e))
       (clock_validate e) = (ok, om1, order1)"
    using prod_cases3 by blast
  have c: "capital om1 = capital (order_manager st)"
    using validate_order_capital
      [of "order_manager st"
        "Order_init (symbol_md tick) qty (price_md tick) direction (id_text e)" "clock_validate e"]
      v by simp
  show ?thesis
  proof (cases ok)
    case False
    with v c show ?thesis by (simp add: process_signal_rejected)
  next
    case True
    show ?thesis
    proof (cases "simulate_execution (matching_engine st) order1 (rnd e)")
      case (Inl err)
      with v True c show ?thesis by (simp add: process_signal_fault)
    next
      case (Inr res)
      obtain order2 fill_price filled_qty where r: "res = (order2, fill_price, filled_qty)"
        using prod_cases3 by blast
      obtain om' where u:
        "snd (update_from_fill (portfolio st) (Some om1) order2 fill_price filled_qty) = Some om'"
        by (simp add: update_from_fill_def Let_def)
      have "capital om' = capital om1"
        using u by (rule update_from_fill_capital)
      with v True Inr r u c show ?thesis
        by (simp add: process_signal_executed)
    qed
  qed
qed

lemma process_signals_capital:
  "capital (order_manager (process_signals qty st tick sigs)) = capital (order_manager st)"
proof (induction sigs arbitrary: st)
  case Nil
  then show ?case by simp
next
  case (Cons s sigs)
  obtain direction e where s: "s = (direction, e)" by (cases s) auto
  show ?case by (simp add: s Cons.IH process_signal_capital)
qed

lemma run_ticks_capital:
  "capital (order_manager (run_ticks qty st obs)) = capital (order_manager st)"
proof (induction obs arbitrary: st)
  case Nil
  then show ?case by simp
next
  case (Cons ob obs)
  obtain tick sigs where ob: "ob = (tick, sigs)" by (cases ob) auto
  show ?case by (simp add: ob Cons.IH process_tick_def Let_def process_signals_capital)
qed

text \<open>
  Claim C1 at a concrete run. \<open>validate_order\<close> compares the cost of a BUY with
  \<open>capital\<close>, which is the initial capital for the whole run: no call of the runner
  changes it (\<open>run_ticks_capital\<close>), while every fill changes the cash of the portfolio.
  Here three ticks at a price of 5000 each carry a BUY signal that is filled in full
  with no slippage. After the second fill the cash is 0; the third order costs 50000
  and is admitted all the same, is filled, and leaves the cash at -50000.
\<close>

theorem stale_capital_run:
  "cash (portfolio (run_backtest_simulation
     [(aapl_tick 0 5000, [(''BUY'', env_at 1 (draws_full 0))]),
      (aapl_tick 60 5000, [(''BUY'', env_at 2 (draws_full 0))])])) = 0
   \<and> capital (order_manager (run_backtest_simulation
     [(aapl_tick 0 5000, [(''BUY'', env_at 1 (draws_full 0))]),
      (aapl_tick 60 5000, [(''BUY'', env_at 2 (draws_full 0))])])) = 100000
   \<and> logged_statuses (run_backtest_simulation
     [(aapl_tick 0 5000, [(''BUY'', env_at 1 (draws_full 0))]),
      (aapl_tick 60 5000, [(''BUY'', env_at 2 (draws_full 0))]),
      (aapl_tick 120 5000, [(''BUY'', env_at 3 (draws_full 0))])]) = [FILLED, FILLED, FILLED]
   \<and> cash (portfolio (run_backtest_simulation
     [(aapl_tick 0 5000, [(''BUY'', env_at 1 (draws_full 0))]),
      (aapl_tick 60 5000, [(''BUY'', env_at 2 (draws_full 0))]),
      (aapl_tick 120 5000, [(''BUY'', env_at 3 (draws_full 0))])])) = - 50000"
  by (simp add: run_backtest_simulation_def process_tick_def process_signal_def
      record_equity_def compute_equity_def validate_order_def validate_def
      simulate_execution_def apply_slippage_def gauss_def py_round_def round_half_even_def
      mark_filled_def update_from_fill_def position_of_def dict_get_def log_order_def
      initial_components_def Gateway_init_def OrderManager_init_def Portfolio_init_def
      INITIAL_CASH_def DEFAULT_QTY_def default_max_orders_per_minute_def
      default_slippage_factor_def Order_init_def aapl_tick_def env_at_def draws_full_def
      logged_statuses_def Let_def)

end
